theory Spec2Isabelle
  imports Main "HOL-Library.Word"
begin

unbundle bit_operations_syntax

section \<open>The PX4IO driver (src/drivers/px4io/px4io.cpp)\<close>

text \<open>
  The driver talks to the IO coprocessor through a device interface with two primitives,
  \<^verbatim>\<open>read(address, buffer, count)\<close> and \<^verbatim>\<open>write(address, buffer, count)\<close>, on 16-bit
  registers. Everything the driver does to the coprocessor goes through them, so the model
  keeps the sequence of calls made on the interface (the trace) next to the driver's
  member variables, and the interface itself is an arbitrary function of the calls made
  so far: it may answer with any return value and any data.
\<close>

subsection \<open>Machine types and return codes\<close>

type_synonym uint8_t = "8 word"
type_synonym uint16_t = "16 word"
type_synonym uint32_t = "32 word"
type_synonym int32_t = "32 word"
type_synonym hrt_abstime = "64 word"

text \<open>\<^verbatim>\<open>OK\<close> is 0 and \<^verbatim>\<open>EINVAL\<close> is errno 22; the driver returns \<^verbatim>\<open>-EINVAL\<close>, \<^verbatim>\<open>-1\<close>, \<^verbatim>\<open>1\<close>
  or \<^verbatim>\<open>OK\<close> as a C \<^verbatim>\<open>int\<close>.\<close>

definition OK :: int where
  "OK = 0"

definition EINVAL :: int where
  "EINVAL = 22"

subsection \<open>The device interface and its trace\<close>

datatype link_call =
    LinkRead uint32_t uint32_t
  | LinkWrite uint32_t "uint16_t list" uint32_t

text \<open>
  \<open>dev_read h address count\<close> is what \<^verbatim>\<open>_interface->read\<close> answers after the calls \<open>h\<close>:
  its return value and the word it leaves at each index of the caller's buffer.
  \<open>dev_write h address values count\<close> is the return value of \<^verbatim>\<open>_interface->write\<close>.
\<close>

record device =
  dev_read :: "link_call list \<Rightarrow> uint32_t \<Rightarrow> uint32_t \<Rightarrow> int \<times> (nat \<Rightarrow> uint16_t)"
  dev_write :: "link_call list \<Rightarrow> uint32_t \<Rightarrow> uint16_t list \<Rightarrow> uint32_t \<Rightarrow> int"

fun is_write :: "link_call \<Rightarrow> bool" where
  "is_write (LinkWrite a vs n) = True"
| "is_write (LinkRead a n) = False"

definition writes_of :: "link_call list \<Rightarrow> link_call list" where
  "writes_of h = filter is_write h"

subsection \<open>Driver state\<close>

record safety_s =
  timestamp :: hrt_abstime
  safety_switch_available :: bool
  safety_off :: bool

text \<open>
  The constants of \<^verbatim>\<open>modules/px4iofirmware/protocol.h\<close> (register pages, offsets, bit masks
  and magic values), the array sizes \<^verbatim>\<open>PWM_OUTPUT_MAX_CHANNELS\<close> and
  \<^verbatim>\<open>input_rc_s::RC_INPUT_MAX_CHANNELS\<close>, and the restart reasons of \<^verbatim>\<open>dataman.h\<close> come from
  headers that are not part of the driver file. The model takes them as a parameter \<open>P\<close>;
  every result below holds for any values of them.
\<close>

record protocol =
  PX4IO_PAGE_STATUS :: uint8_t
  PX4IO_P_STATUS_FLAGS :: uint8_t
  PX4IO_P_STATUS_FLAGS_ARM_SYNC :: uint16_t
  PX4IO_P_STATUS_FLAGS_SAFETY_OFF :: uint16_t
  PX4IO_PAGE_SETUP :: uint8_t
  PX4IO_P_SETUP_ARMING :: uint8_t
  PX4IO_P_SETUP_ARMING_IO_ARM_OK :: uint16_t
  PX4IO_P_SETUP_ARMING_FMU_ARMED :: uint16_t
  PX4IO_P_SETUP_ARMING_INAIR_RESTART_OK :: uint16_t
  PX4IO_P_SETUP_ARMING_RC_HANDLING_DISABLED :: uint16_t
  PX4IO_P_SETUP_ARMING_LOCKDOWN :: uint16_t
  PX4IO_P_SETUP_ARMING_FORCE_FAILSAFE :: uint16_t
  PX4IO_P_SETUP_ARMING_TERMINATION_FAILSAFE :: uint16_t
  PX4IO_P_SETUP_ARMING_FMU_PREARMED :: uint16_t
  PX4IO_P_SETUP_SET_DEBUG :: uint8_t
  PX4IO_P_SETUP_REBOOT_BL :: uint8_t
  PX4IO_REBOOT_BL_MAGIC :: uint16_t
  PX4IO_P_SETUP_FORCE_SAFETY_OFF :: uint8_t
  PX4IO_P_SETUP_FORCE_SAFETY_ON :: uint8_t
  PX4IO_FORCE_SAFETY_MAGIC :: uint16_t
  PX4IO_PAGE_DIRECT_PWM :: uint8_t
  PX4IO_PROTOCOL_VERSION :: uint32_t
  PX4IO_PAGE_CONFIG :: uint8_t
  PX4IO_P_CONFIG_PROTOCOL_VERSION :: uint8_t
  PX4IO_P_CONFIG_HARDWARE_VERSION :: uint8_t
  PX4IO_P_CONFIG_MAX_TRANSFER :: uint8_t
  PX4IO_P_CONFIG_CONTROL_COUNT :: uint8_t
  PX4IO_P_CONFIG_ACTUATOR_COUNT :: uint8_t
  PX4IO_P_CONFIG_RC_INPUT_COUNT :: uint8_t
  PX4IO_P_STATUS_FREEMEM :: uint8_t
  PX4IO_P_STATUS_FLAGS_INIT_OK :: uint16_t
  PX4IO_PAGE_SERVOS :: uint8_t
  PX4IO_PAGE_RAW_RC_INPUT :: uint8_t
  PX4IO_P_RAW_RC_COUNT :: uint8_t
  PX4IO_P_RAW_RC_BASE :: uint8_t
  PX4IO_PAGE_RC_CONFIG :: uint8_t
  PX4IO_P_RC_CONFIG_STRIDE :: nat
  PX4IO_P_RC_CONFIG_ASSIGNMENT :: nat
  PX4IO_P_RC_CONFIG_OPTIONS :: nat
  PX4IO_P_RC_CONFIG_OPTIONS_ENABLED :: uint16_t
  PX4IO_P_RC_CONFIG_OPTIONS_REVERSE :: uint16_t
  PX4IO_PAGE_DISARMED_PWM :: uint8_t
  PX4IO_PAGE_FAILSAFE_PWM :: uint8_t
  PWM_OUTPUT_MAX_CHANNELS :: nat
  RC_INPUT_MAX_CHANNELS :: uint32_t
  DM_INIT_REASON_POWER_ON :: int32_t
  DM_INIT_REASON_IN_FLIGHT :: int32_t
  DM_INIT_REASON_VOLATILE :: int32_t

text \<open>The fields of the \<^verbatim>\<open>actuator_armed\<close> topic that the driver reads.\<close>

record actuator_armed_s =
  armed :: bool
  prearmed :: bool
  ready_to_arm :: bool
  lockdown :: bool
  manual_lockdown :: bool
  force_failsafe :: bool
  in_esc_calibration_mode :: bool

text \<open>The two commands that \<^verbatim>\<open>init\<close> publishes on \<^verbatim>\<open>vehicle_command\<close>.\<close>

datatype vehicle_cmd = VEHICLE_CMD_DO_FLIGHTTERMINATION | VEHICLE_CMD_COMPONENT_ARM_DISARM

text \<open>What the driver does to its surroundings other than through the interface: sleeps,
  log messages, publications, notifications and scheduling.\<close>

datatype event =
    Usleep nat
  | MavlinkLog string
  | Warn string
  | ParameterNotify string
  | PublishStatus hrt_abstime
  | PublishVehicleCommand vehicle_cmd hrt_abstime
  | RegisterClassDevname
  | ScheduleNow

text \<open>
  The member variables of class \<^verbatim>\<open>PX4IO\<close> that the modelled functions use. Next to them
  the record holds the driver's surroundings: the interface and the trace of calls made on
  it, the clock (\<open>clock k\<close> is the value of the \<open>k\<close>-th call of \<^verbatim>\<open>hrt_absolute_time()\<close>,
  \<open>clock_reads\<close> counts the calls made), the messages published on the \<^verbatim>\<open>safety\<close>
  topic, the integer parameters of the parameter store, and the events so far.
\<close>

record px4io =
  interface :: device
  trace :: "link_call list"
  clock :: "nat \<Rightarrow> hrt_abstime"
  clock_reads :: nat
  safety_published :: "safety_s list"
  max_transfer :: uint32_t
  status :: uint16_t
  last_written_arming_s :: uint16_t
  last_written_arming_c :: uint16_t
  safety :: safety_s
  lockdown_override :: bool
  prev_outputs :: "uint16_t list"
  last_full_output_update :: hrt_abstime
  params :: "string \<Rightarrow> int32_t option"
  events :: "event list"
  hardware :: uint32_t
  max_actuators :: uint32_t
  max_controls :: uint32_t
  max_rc_input :: uint32_t
  rc_handling_disabled :: bool
  hitl_mode :: bool
  alarms :: uint16_t
  setup_arming :: uint16_t
  last_status_publish :: hrt_abstime
  rssi_pwm_chan :: int32_t
  rssi_pwm_max :: int32_t
  rssi_pwm_min :: int32_t

text \<open>The state after the constructor: the default member initialisers of the class, with
  \<^verbatim>\<open>_prev_outputs\<close> an array of \<open>n\<close> zeros, an empty parameter store and no events.\<close>

definition px4io_new :: "device \<Rightarrow> (nat \<Rightarrow> hrt_abstime) \<Rightarrow> nat \<Rightarrow> px4io" where
  "px4io_new dev clk n =
     \<lparr>interface = dev, trace = [], clock = clk, clock_reads = 0, safety_published = [],
      max_transfer = 16, status = 0, last_written_arming_s = 0, last_written_arming_c = 0,
      safety = \<lparr>timestamp = 0, safety_switch_available = False, safety_off = False\<rparr>,
      lockdown_override = False, prev_outputs = replicate n 0, last_full_output_update = 0,
      params = (\<lambda>name. None), events = [],
      hardware = 0, max_actuators = 0, max_controls = 0, max_rc_input = 0,
      rc_handling_disabled = False, hitl_mode = False, alarms = 0, setup_arming = 0,
      last_status_publish = 0, rssi_pwm_chan = 0, rssi_pwm_max = 0, rssi_pwm_min = 0\<rparr>"

subsection \<open>Time\<close>

definition hrt_absolute_time :: "px4io \<Rightarrow> hrt_abstime \<times> px4io" where
  "hrt_absolute_time s = (clock s (clock_reads s), s\<lparr>clock_reads := Suc (clock_reads s)\<rparr>)"

text \<open>Modelled from the spec: \<^verbatim>\<open>hrt_elapsed_time\<close> is declared in \<^verbatim>\<open>drivers/drv_hrt.h\<close>, which
  is not under src/. The time elapsed since a timestamp is the current time minus the
  timestamp, in unsigned 64-bit microseconds.\<close>

definition hrt_elapsed_time :: "hrt_abstime \<Rightarrow> px4io \<Rightarrow> hrt_abstime \<times> px4io" where
  "hrt_elapsed_time then_t s = (let (now, s') = hrt_absolute_time s in (now - then_t, s'))"

text \<open>A sleep leaves the driver as it is; the call is recorded.\<close>

definition px4_usleep :: "nat \<Rightarrow> px4io \<Rightarrow> px4io" where
  "px4_usleep us s = s\<lparr>events := events s @ [Usleep us]\<rparr>"

subsection \<open>Register transport\<close>

text \<open>\<^verbatim>\<open>(page << 8) | offset\<close>, computed in \<^verbatim>\<open>int\<close> and passed as \<^verbatim>\<open>unsigned\<close>.\<close>

definition reg_address :: "uint8_t \<Rightarrow> uint8_t \<Rightarrow> uint32_t" where
  "reg_address page offset = push_bit 8 (ucast page) OR ucast offset"

text \<open>
  \<^verbatim>\<open>io_reg_set(page, offset, values, num_values)\<close>. \<^verbatim>\<open>sizeof(*values)\<close> is 2. The range check
  comes first; only then the interface is called, and the call is recorded.
\<close>

definition io_reg_set :: "uint8_t \<Rightarrow> uint8_t \<Rightarrow> uint16_t list \<Rightarrow> uint32_t \<Rightarrow> px4io \<Rightarrow> int \<times> px4io" where
  "io_reg_set page offset values num_values s =
     (if num_values > max_transfer s div 2 then (- EINVAL, s)
      else
        let ret = dev_write (interface s) (trace s) (reg_address page offset) values num_values;
            s' = s\<lparr>trace := trace s @ [LinkWrite (reg_address page offset) values num_values]\<rparr>
        in if ret \<noteq> sint num_values then (- 1, s') else (OK, s'))"

text \<open>\<^verbatim>\<open>io_reg_set(page, offset, value)\<close>: one register.\<close>

definition io_reg_set1 :: "uint8_t \<Rightarrow> uint8_t \<Rightarrow> uint16_t \<Rightarrow> px4io \<Rightarrow> int \<times> px4io" where
  "io_reg_set1 page offset v s = io_reg_set page offset [v] 1 s"

text \<open>
  \<^verbatim>\<open>io_reg_get(page, offset, values, num_values)\<close>. \<open>values\<close> is the caller's buffer as it is
  before the call; the second component of the result is the buffer afterwards. A rejected
  transfer leaves the buffer as it was; after a call of the interface the buffer holds
  what the interface left there.
\<close>

definition io_reg_get ::
  "uint8_t \<Rightarrow> uint8_t \<Rightarrow> uint16_t list \<Rightarrow> uint32_t \<Rightarrow> px4io \<Rightarrow> int \<times> uint16_t list \<times> px4io" where
  "io_reg_get page offset values num_values s =
     (if num_values > max_transfer s div 2 then (- EINVAL, values, s)
      else
        let (ret, data) = dev_read (interface s) (trace s) (reg_address page offset) num_values;
            s' = s\<lparr>trace := trace s @ [LinkRead (reg_address page offset) num_values]\<rparr>;
            values' = map data [0..<length values]
        in if ret \<noteq> sint num_values then (- 1, values', s') else (OK, values', s'))"

text \<open>\<^verbatim>\<open>_io_reg_get_error = 0x80000000\<close>.\<close>

definition io_reg_get_error :: uint32_t where
  "io_reg_get_error = 0x80000000"

text \<open>\<^verbatim>\<open>uint32_t io_reg_get(page, offset)\<close>: one register, or \<^verbatim>\<open>_io_reg_get_error\<close>. The local
  \<^verbatim>\<open>value\<close> is not initialised in the source; it is read only after the interface was
  called.\<close>

definition io_reg_get1 :: "uint8_t \<Rightarrow> uint8_t \<Rightarrow> px4io \<Rightarrow> uint32_t \<times> px4io" where
  "io_reg_get1 page offset s =
     (let (ret, vals, s') = io_reg_get page offset [0] 1 s
      in if ret \<noteq> OK then (io_reg_get_error, s') else (ucast (hd vals), s'))"

text \<open>\<^verbatim>\<open>io_reg_modify(page, offset, clearbits, setbits)\<close>: read, change the bits, write back.\<close>

definition io_reg_modify :: "uint8_t \<Rightarrow> uint8_t \<Rightarrow> uint16_t \<Rightarrow> uint16_t \<Rightarrow> px4io \<Rightarrow> int \<times> px4io" where
  "io_reg_modify page offset clearbits setbits s =
     (let (ret, vals, s') = io_reg_get page offset [0] 1 s
      in if ret \<noteq> OK then (ret, s')
         else io_reg_set1 page offset ((hd vals AND NOT clearbits) OR setbits) s')"

subsection \<open>Status and safety synchronizer\<close>

text \<open>
  \<^verbatim>\<open>io_handle_status(status)\<close>. The three branches set \<^verbatim>\<open>ret\<close> and \<^verbatim>\<open>_status\<close>; then the
  safety state is published on a change of the safety-off bit, or when at least one second
  (\<^verbatim>\<open>1_s\<close>, 1000000 microseconds) has passed since the last publication.
\<close>

definition io_handle_status :: "protocol \<Rightarrow> uint16_t \<Rightarrow> px4io \<Rightarrow> int \<times> px4io" where
  "io_handle_status P st s =
     (let (ret, s1) =
        (if status s AND PX4IO_P_STATUS_FLAGS_SAFETY_OFF P \<noteq> 0
            \<and> \<not> (st AND PX4IO_P_STATUS_FLAGS_SAFETY_OFF P \<noteq> 0)
            \<and> \<not> (st AND PX4IO_P_STATUS_FLAGS_ARM_SYNC P \<noteq> 0)
         then
           let (r, s') = io_reg_modify (PX4IO_PAGE_STATUS P) (PX4IO_P_STATUS_FLAGS P) 0
                           (PX4IO_P_STATUS_FLAGS_SAFETY_OFF P OR PX4IO_P_STATUS_FLAGS_ARM_SYNC P) s
           in (r, s'\<lparr>status := st AND PX4IO_P_STATUS_FLAGS_SAFETY_OFF P\<rparr>)
         else if \<not> (status s AND PX4IO_P_STATUS_FLAGS_ARM_SYNC P \<noteq> 0)
         then
           let (r, s') = io_reg_modify (PX4IO_PAGE_STATUS P) (PX4IO_P_STATUS_FLAGS P) 0
                           (PX4IO_P_STATUS_FLAGS_ARM_SYNC P) s
           in (r, s'\<lparr>status := st\<rparr>)
         else (0, s\<lparr>status := st\<rparr>));
          new_safety_off = (st AND PX4IO_P_STATUS_FLAGS_SAFETY_OFF P \<noteq> 0);
          (elapsed, s2) = hrt_elapsed_time (timestamp (safety s1)) s1
      in if elapsed \<ge> 1000000 \<or> safety_off (safety s2) \<noteq> new_safety_off
         then
           let (now, s3) = hrt_absolute_time s2;
               sf = \<lparr>timestamp = now, safety_switch_available = True, safety_off = new_safety_off\<rparr>
           in (ret, s3\<lparr>safety := sf, safety_published := safety_published s3 @ [sf]\<rparr>)
         else (ret, s2))"

text \<open>
  The first part of \<^verbatim>\<open>io_set_arming_state()\<close>: the bits to set and to clear, and the new
  value of \<^verbatim>\<open>_lockdown_override\<close>. The argument \<open>copy\<close> is the outcome of
  \<^verbatim>\<open>_t_actuator_armed.copy(&armed)\<close>: \<open>None\<close> when it returns false.
\<close>

definition arming_pair ::
  "protocol \<Rightarrow> actuator_armed_s option \<Rightarrow> bool \<Rightarrow> uint16_t \<times> uint16_t \<times> bool" where
  "arming_pair P copy lockdown_ovr =
     (case copy of
        None \<Rightarrow> (0, 0, lockdown_ovr)
      | Some a \<Rightarrow>
          let (set1, clear1) =
                (if armed a \<or> in_esc_calibration_mode a
                 then (0 OR PX4IO_P_SETUP_ARMING_FMU_ARMED P, 0)
                 else (0, 0 OR PX4IO_P_SETUP_ARMING_FMU_ARMED P));
              (set2, clear2) =
                (if prearmed a
                 then (set1 OR PX4IO_P_SETUP_ARMING_FMU_PREARMED P, clear1)
                 else (set1, clear1 OR PX4IO_P_SETUP_ARMING_FMU_PREARMED P));
              (set3, clear3, ovr) =
                (if (lockdown a \<or> manual_lockdown a) \<and> \<not> lockdown_ovr
                 then (set2 OR PX4IO_P_SETUP_ARMING_LOCKDOWN P, clear2, True)
                 else if \<not> (lockdown a \<or> manual_lockdown a) \<and> lockdown_ovr
                 then (set2, clear2 OR PX4IO_P_SETUP_ARMING_LOCKDOWN P, False)
                 else (set2, clear2, lockdown_ovr));
              (set4, clear4) =
                (if force_failsafe a
                 then (set3 OR PX4IO_P_SETUP_ARMING_FORCE_FAILSAFE P, clear3)
                 else (set3, clear3 OR PX4IO_P_SETUP_ARMING_FORCE_FAILSAFE P));
              (set5, clear5) =
                (if ready_to_arm a
                 then (set4 OR PX4IO_P_SETUP_ARMING_IO_ARM_OK P, clear4)
                 else (set4, clear4 OR PX4IO_P_SETUP_ARMING_IO_ARM_OK P))
          in (set5, clear5, ovr))"

text \<open>\<^verbatim>\<open>io_set_arming_state()\<close>: the pair is compared with the last written pair, stored, and
  only then handed to \<^verbatim>\<open>io_reg_modify\<close>.\<close>

definition io_set_arming_state :: "protocol \<Rightarrow> actuator_armed_s option \<Rightarrow> px4io \<Rightarrow> int \<times> px4io" where
  "io_set_arming_state P copy s =
     (let (set, clear, ovr) = arming_pair P copy (lockdown_override s);
          s1 = s\<lparr>lockdown_override := ovr\<rparr>
      in if last_written_arming_s s1 \<noteq> set \<or> last_written_arming_c s1 \<noteq> clear
         then io_reg_modify (PX4IO_PAGE_SETUP P) (PX4IO_P_SETUP_ARMING P) clear set
                (s1\<lparr>last_written_arming_s := set, last_written_arming_c := clear\<rparr>)
         else (0, s1))"

subsection \<open>Output cache\<close>

text \<open>One round of the loop of \<^verbatim>\<open>updateOutputs\<close>, for channel \<open>i\<close>. The loop index is a
  \<^verbatim>\<open>size_t\<close> and is passed as the \<^verbatim>\<open>uint8_t\<close> offset; the result of \<^verbatim>\<open>io_reg_set\<close> is
  dropped.\<close>

definition output_channel :: "protocol \<Rightarrow> bool \<Rightarrow> uint16_t list \<Rightarrow> nat \<Rightarrow> px4io \<Rightarrow> px4io" where
  "output_channel P full_update outputs i s =
     (if prev_outputs s ! i \<noteq> outputs ! i \<or> full_update
      then
        let (r, s') = io_reg_set1 (PX4IO_PAGE_DIRECT_PWM P) (of_nat i) (outputs ! i) s
        in s'\<lparr>prev_outputs := (prev_outputs s')[i := outputs ! i]\<rparr>
      else s)"

text \<open>
  \<^verbatim>\<open>updateOutputs(stop_motors, outputs, num_outputs, num_control_groups_updated)\<close>.
  \<^verbatim>\<open>500_ms\<close> is 500000 microseconds. Both arrays have \<^verbatim>\<open>MAX_ACTUATORS\<close> elements in the
  source; a \<^verbatim>\<open>num_outputs\<close> beyond either array is an out-of-bounds access there and
  \<open>None\<close> here.
\<close>

definition updateOutputs ::
  "protocol \<Rightarrow> bool \<Rightarrow> uint16_t list \<Rightarrow> uint32_t \<Rightarrow> uint32_t \<Rightarrow> px4io \<Rightarrow> (bool \<times> px4io) option" where
  "updateOutputs P stop_motors outputs num_outputs num_control_groups_updated s =
     (if unat num_outputs > length outputs \<or> unat num_outputs > length (prev_outputs s) then None
      else
        let (elapsed, s1) = hrt_elapsed_time (last_full_output_update s) s;
            full_update = (elapsed \<ge> 500000);
            s2 = fold (output_channel P full_update outputs) [0..<unat num_outputs] s1
        in if full_update
           then let (now, s3) = hrt_absolute_time s2
                in Some (True, s3\<lparr>last_full_output_update := now\<rparr>)
           else Some (True, s2))"

subsection \<open>Control surface\<close>

text \<open>The commands of \<^verbatim>\<open>ioctl\<close> that only touch the setup page. \<^verbatim>\<open>arg\<close> is an
  \<^verbatim>\<open>unsigned long\<close>; where it is passed as a register value it is cut to 16 bits.\<close>

datatype ioctl_cmd =
    PWM_SERVO_ARM
  | PWM_SERVO_SET_ARM_OK
  | PWM_SERVO_CLEAR_ARM_OK
  | PWM_SERVO_DISARM
  | PWM_SERVO_SET_FORCE_SAFETY_OFF
  | PWM_SERVO_SET_FORCE_SAFETY_ON
  | PWM_SERVO_SET_FORCE_FAILSAFE
  | PWM_SERVO_SET_TERMINATION_FAILSAFE
  | PX4IO_SET_DEBUG
  | PX4IO_REBOOT_BOOTLOADER
  | PX4IO_INAIR_RESTART_ENABLE

definition system_status :: "px4io \<Rightarrow> uint16_t" where
  "system_status s = status s"

fun ioctl :: "protocol \<Rightarrow> ioctl_cmd \<Rightarrow> uint32_t \<Rightarrow> px4io \<Rightarrow> int \<times> px4io" where
  "ioctl P PWM_SERVO_ARM arg s =
     io_reg_modify (PX4IO_PAGE_SETUP P) (PX4IO_P_SETUP_ARMING P) 0 (PX4IO_P_SETUP_ARMING_FMU_ARMED P) s"
| "ioctl P PWM_SERVO_SET_ARM_OK arg s =
     io_reg_modify (PX4IO_PAGE_SETUP P) (PX4IO_P_SETUP_ARMING P) 0 (PX4IO_P_SETUP_ARMING_IO_ARM_OK P) s"
| "ioctl P PWM_SERVO_CLEAR_ARM_OK arg s =
     io_reg_modify (PX4IO_PAGE_SETUP P) (PX4IO_P_SETUP_ARMING P) (PX4IO_P_SETUP_ARMING_IO_ARM_OK P) 0 s"
| "ioctl P PWM_SERVO_DISARM arg s =
     io_reg_modify (PX4IO_PAGE_SETUP P) (PX4IO_P_SETUP_ARMING P) (PX4IO_P_SETUP_ARMING_FMU_ARMED P) 0 s"
| "ioctl P PWM_SERVO_SET_FORCE_SAFETY_OFF arg s =
     io_reg_set1 (PX4IO_PAGE_SETUP P) (PX4IO_P_SETUP_FORCE_SAFETY_OFF P) (PX4IO_FORCE_SAFETY_MAGIC P) s"
| "ioctl P PWM_SERVO_SET_FORCE_SAFETY_ON arg s =
     io_reg_set1 (PX4IO_PAGE_SETUP P) (PX4IO_P_SETUP_FORCE_SAFETY_ON P) (PX4IO_FORCE_SAFETY_MAGIC P) s"
| "ioctl P PWM_SERVO_SET_FORCE_FAILSAFE arg s =
     (if arg = 0
      then io_reg_modify (PX4IO_PAGE_SETUP P) (PX4IO_P_SETUP_ARMING P)
             (PX4IO_P_SETUP_ARMING_FORCE_FAILSAFE P) 0 s
      else io_reg_modify (PX4IO_PAGE_SETUP P) (PX4IO_P_SETUP_ARMING P)
             0 (PX4IO_P_SETUP_ARMING_FORCE_FAILSAFE P) s)"
| "ioctl P PWM_SERVO_SET_TERMINATION_FAILSAFE arg s =
     (if arg = 0
      then io_reg_modify (PX4IO_PAGE_SETUP P) (PX4IO_P_SETUP_ARMING P)
             (PX4IO_P_SETUP_ARMING_TERMINATION_FAILSAFE P) 0 s
      else io_reg_modify (PX4IO_PAGE_SETUP P) (PX4IO_P_SETUP_ARMING P)
             0 (PX4IO_P_SETUP_ARMING_TERMINATION_FAILSAFE P) s)"
| "ioctl P PX4IO_SET_DEBUG arg s =
     io_reg_set1 (PX4IO_PAGE_SETUP P) (PX4IO_P_SETUP_SET_DEBUG P) (ucast arg) s"
| "ioctl P PX4IO_REBOOT_BOOTLOADER arg s =
     (if system_status s AND PX4IO_P_STATUS_FLAGS_SAFETY_OFF P \<noteq> 0 then (- EINVAL, s)
      else
        let (r, s') = io_reg_set1 (PX4IO_PAGE_SETUP P) (PX4IO_P_SETUP_REBOOT_BL P) (ucast arg)
                        (px4_usleep 1 s)
        in (OK, s'))"
| "ioctl P PX4IO_INAIR_RESTART_ENABLE arg s =
     (if arg \<noteq> 0
      then io_reg_modify (PX4IO_PAGE_SETUP P) (PX4IO_P_SETUP_ARMING P)
             0 (PX4IO_P_SETUP_ARMING_INAIR_RESTART_OK P) s
      else io_reg_modify (PX4IO_PAGE_SETUP P) (PX4IO_P_SETUP_ARMING P)
             (PX4IO_P_SETUP_ARMING_INAIR_RESTART_OK P) 0 s)"

subsection \<open>Surroundings of the start-up sequence\<close>

text \<open>
  What \<^verbatim>\<open>init\<close> takes from collaborators outside the driver file: the return value of
  \<^verbatim>\<open>CDev::init()\<close>; the outcome of the \<open>k\<close>-th call of \<^verbatim>\<open>actuator_armed_sub.update\<close>
  (\<open>None\<close> when it returns false); whether the float parameter \<^verbatim>\<open>RC<i+1>_REV\<close> is
  negative; the indeterminate content of the local array \<^verbatim>\<open>regs\<close> of
  \<^verbatim>\<open>io_set_rc_config\<close> in round \<open>i\<close>; the circuit breaker \<^verbatim>\<open>CBRK_IO_SAFETY\<close>; and the
  mixer's disarmed and failsafe values.
\<close>

record init_env =
  cdev_init :: int
  armed_updates :: "nat \<Rightarrow> actuator_armed_s option"
  rc_rev_negative :: "nat \<Rightarrow> bool"
  stack_regs :: "nat \<Rightarrow> nat \<Rightarrow> uint16_t"
  cbrk_io_safety :: bool
  disarmed_value :: "nat \<Rightarrow> uint16_t"
  failsafe_value :: "nat \<Rightarrow> uint16_t"

text \<open>\<^verbatim>\<open>init\<close> returns an \<^verbatim>\<open>int\<close>, or ends the process through \<^verbatim>\<open>errx\<close>.\<close>

datatype init_result = Return int | Errx int

definition mavlink_log :: "string \<Rightarrow> px4io \<Rightarrow> px4io" where
  "mavlink_log msg s = s\<lparr>events := events s @ [MavlinkLog msg]\<rparr>"

definition px4_warn :: "string \<Rightarrow> px4io \<Rightarrow> px4io" where
  "px4_warn msg s = s\<lparr>events := events s @ [Warn msg]\<rparr>"

definition vcmd_publish :: "vehicle_cmd \<Rightarrow> hrt_abstime \<Rightarrow> px4io \<Rightarrow> px4io" where
  "vcmd_publish cmd ts s = s\<lparr>events := events s @ [PublishVehicleCommand cmd ts]\<rparr>"

text \<open>Modelled from the spec: the parameter store (\<^verbatim>\<open>lib/parameters\<close>) is not under src/. It
  is external configuration, written best-effort: reading a parameter that does not exist
  fails and leaves the variable as it was, and setting one changes nothing.
  \<open>param_get name v s\<close> returns whether the call failed and the variable afterwards.\<close>

definition param_get :: "string \<Rightarrow> int32_t \<Rightarrow> px4io \<Rightarrow> bool \<times> int32_t" where
  "param_get name v s = (case params s name of None \<Rightarrow> (True, v) | Some x \<Rightarrow> (False, x))"

definition param_set_no_notification :: "string \<Rightarrow> int32_t \<Rightarrow> px4io \<Rightarrow> px4io" where
  "param_set_no_notification name v s =
     (case params s name of None \<Rightarrow> s | Some x \<Rightarrow> s\<lparr>params := (params s)(name \<mapsto> v)\<rparr>)"

definition param_set :: "string \<Rightarrow> int32_t \<Rightarrow> px4io \<Rightarrow> px4io" where
  "param_set name v s =
     (case params s name of
        None \<Rightarrow> s
      | Some x \<Rightarrow> s\<lparr>params := (params s)(name \<mapsto> v), events := events s @ [ParameterNotify name]\<rparr>)"

subsection \<open>Status poll\<close>

text \<open>Reading the registers \<open>offset i\<close> of a page one by one, for \<open>i\<close> below \<open>n\<close>; the values
  go into the status message only.\<close>

definition read_each :: "uint8_t \<Rightarrow> (nat \<Rightarrow> uint8_t) \<Rightarrow> nat \<Rightarrow> px4io \<Rightarrow> px4io" where
  "read_each page offset n s = fold (\<lambda>i s'. snd (io_reg_get1 page (offset i) s')) [0..<n] s"

text \<open>
  \<^verbatim>\<open>io_get_status()\<close>. The analog RSSI filter in the middle of the function works on
  single-precision floats (\<^verbatim>\<open>_analog_rc_rssi_volt\<close>, \<^verbatim>\<open>_analog_rc_rssi_stable\<close>) and touches
  nothing else; it is left out. Of the status message only the publication and its
  timestamp are kept.
\<close>

definition io_get_status :: "protocol \<Rightarrow> px4io \<Rightarrow> int \<times> px4io" where
  "io_get_status P s =
     (let (ret, regs, s1) = io_reg_get (PX4IO_PAGE_STATUS P) (PX4IO_P_STATUS_FLAGS P) (replicate 6 0) 6 s
      in if ret \<noteq> OK then (ret, s1)
         else
           let STATUS_FLAGS = regs ! 0;
               STATUS_ALARMS = regs ! 1;
               (r, s2) = io_handle_status P STATUS_FLAGS s1;
               (arming, s3) = io_reg_get1 (PX4IO_PAGE_SETUP P) (PX4IO_P_SETUP_ARMING P) s2;
               SETUP_ARMING = (ucast arming :: uint16_t);
               (elapsed, s4) = hrt_elapsed_time (last_status_publish s3) s3;
               s9 =
                 (if elapsed \<ge> 1000000 \<or> status s4 \<noteq> STATUS_FLAGS \<or> alarms s4 \<noteq> STATUS_ALARMS
                      \<or> setup_arming s4 \<noteq> SETUP_ARMING
                  then
                    let (freemem, s5) = io_reg_get1 (PX4IO_PAGE_STATUS P) (PX4IO_P_STATUS_FREEMEM P) s4;
                        s6 = read_each (PX4IO_PAGE_SERVOS P) of_nat (unat (max_actuators s5)) s5;
                        (count, s7) = io_reg_get1 (PX4IO_PAGE_RAW_RC_INPUT P) (PX4IO_P_RAW_RC_COUNT P) s6;
                        raw_inputs = (ucast count :: uint16_t);
                        s8 = read_each (PX4IO_PAGE_RAW_RC_INPUT P)
                               (\<lambda>i. PX4IO_P_RAW_RC_BASE P + of_nat i) (unat raw_inputs) s7;
                        (now, s8') = hrt_absolute_time s8
                    in s8'\<lparr>events := events s8' @ [PublishStatus now], last_status_publish := now\<rparr>
                  else s4)
           in (ret, s9\<lparr>alarms := STATUS_ALARMS, setup_arming := SETUP_ARMING\<rparr>))"

subsection \<open>RC configuration and PWM tables\<close>

definition io_disable_rc_handling :: "protocol \<Rightarrow> px4io \<Rightarrow> int \<times> px4io" where
  "io_disable_rc_handling P s =
     io_reg_modify (PX4IO_PAGE_SETUP P) (PX4IO_P_SETUP_ARMING P) 0
       (PX4IO_P_SETUP_ARMING_RC_HANDLING_DISABLED P) s"

text \<open>
  The loop of \<^verbatim>\<open>io_set_rc_config()\<close> over the remaining inputs, with the running \<^verbatim>\<open>offset\<close>
  and \<^verbatim>\<open>ret\<close>. Every entry of \<^verbatim>\<open>input_map\<close> is \<^verbatim>\<open>UINT8_MAX\<close>. Only the assignment and
  options entries of \<^verbatim>\<open>regs\<close> are assigned; the others go out as they lie on the stack.
\<close>

fun rc_config_channels ::
  "protocol \<Rightarrow> init_env \<Rightarrow> nat list \<Rightarrow> nat \<Rightarrow> int \<Rightarrow> px4io \<Rightarrow> int \<times> px4io" where
  "rc_config_channels P env [] offset ret s = (ret, s)"
| "rc_config_channels P env (i # rest) offset ret s =
     (let regs0 = map (stack_regs env i) [0..<PX4IO_P_RC_CONFIG_STRIDE P];
          regs1 = regs0[PX4IO_P_RC_CONFIG_ASSIGNMENT P := 255];
          regs2 = regs1[PX4IO_P_RC_CONFIG_OPTIONS P :=
                    (if rc_rev_negative env i
                     then PX4IO_P_RC_CONFIG_OPTIONS_ENABLED P OR PX4IO_P_RC_CONFIG_OPTIONS_REVERSE P
                     else PX4IO_P_RC_CONFIG_OPTIONS_ENABLED P)];
          (ret', s1) = io_reg_set (PX4IO_PAGE_RC_CONFIG P) (of_nat offset) regs2
                         (of_nat (PX4IO_P_RC_CONFIG_STRIDE P)) s
      in if ret' \<noteq> OK then (ret', px4_warn ''rc config upload failed'' s1)
         else
           let (flags, s2) = io_reg_get1 (PX4IO_PAGE_STATUS P) (PX4IO_P_STATUS_FLAGS P) s1
           in if \<not> (flags AND ucast (PX4IO_P_STATUS_FLAGS_INIT_OK P) \<noteq> 0)
              then (ret', mavlink_log ''config for RC rejected by IO'' s2)
              else rc_config_channels P env rest (offset + PX4IO_P_RC_CONFIG_STRIDE P) ret' s2)"

definition io_set_rc_config :: "protocol \<Rightarrow> init_env \<Rightarrow> px4io \<Rightarrow> int \<times> px4io" where
  "io_set_rc_config P env s = rc_config_channels P env [0..<unat (max_rc_input s)] 0 OK s"

text \<open>\<^verbatim>\<open>updateDisarmed()\<close> and \<^verbatim>\<open>updateFailsafe()\<close>: a zeroed table of
  \<^verbatim>\<open>PWM_OUTPUT_MAX_CHANNELS\<close> values, the first \<^verbatim>\<open>_max_actuators\<close> filled from the mixer.\<close>

definition pwm_table :: "protocol \<Rightarrow> (nat \<Rightarrow> uint16_t) \<Rightarrow> px4io \<Rightarrow> uint16_t list" where
  "pwm_table P v s =
     map v [0..<unat (max_actuators s)] @
       replicate (PWM_OUTPUT_MAX_CHANNELS P - unat (max_actuators s)) 0"

definition updateDisarmed :: "protocol \<Rightarrow> init_env \<Rightarrow> px4io \<Rightarrow> px4io" where
  "updateDisarmed P env s =
     snd (io_reg_set (PX4IO_PAGE_DISARMED_PWM P) 0 (pwm_table P (disarmed_value env) s)
            (max_actuators s) s)"

definition updateFailsafe :: "protocol \<Rightarrow> init_env \<Rightarrow> px4io \<Rightarrow> px4io" where
  "updateFailsafe P env s =
     snd (io_reg_set (PX4IO_PAGE_FAILSAFE_PWM P) 0 (pwm_table P (failsafe_value env) s)
            (max_actuators s) s)"

subsection \<open>Start-up: protocol probe and configuration\<close>

text \<open>
  The loops of \<^verbatim>\<open>init\<close> end when the interface, the clock or the arming feed lets them.
  Each takes a bound on its rounds; \<open>None\<close> says the bound was reached before the loop
  ended.

  The probe: \<^verbatim>\<open>do { px4_usleep(2000); protocol = io_reg_get(...); } while (protocol ==
  _io_reg_get_error && hrt_elapsed_time(&start_try_time) < 700U * 1000U)\<close>.
\<close>

fun probe_protocol :: "nat \<Rightarrow> protocol \<Rightarrow> hrt_abstime \<Rightarrow> px4io \<Rightarrow> (uint32_t \<times> px4io) option" where
  "probe_protocol 0 P start_try_time s = None"
| "probe_protocol (Suc n) P start_try_time s =
     (let s1 = px4_usleep 2000 s;
          (protocol, s2) = io_reg_get1 (PX4IO_PAGE_CONFIG P) (PX4IO_P_CONFIG_PROTOCOL_VERSION P) s1
      in if protocol = io_reg_get_error
         then
           let (elapsed, s3) = hrt_elapsed_time start_try_time s2
           in if elapsed < 700000 then probe_protocol n P start_try_time s3
              else Some (protocol, s3)
         else Some (protocol, s2))"

text \<open>The five configuration reads. \<^verbatim>\<open>_max_transfer\<close> is assigned before the RC input count
  is read.\<close>

definition read_config :: "protocol \<Rightarrow> px4io \<Rightarrow> px4io" where
  "read_config P s =
     (let (hw, s1) = io_reg_get1 (PX4IO_PAGE_CONFIG P) (PX4IO_P_CONFIG_HARDWARE_VERSION P) s;
          (ac, s2) = io_reg_get1 (PX4IO_PAGE_CONFIG P) (PX4IO_P_CONFIG_ACTUATOR_COUNT P)
                       (s1\<lparr>hardware := hw\<rparr>);
          (cc, s3) = io_reg_get1 (PX4IO_PAGE_CONFIG P) (PX4IO_P_CONFIG_CONTROL_COUNT P)
                       (s2\<lparr>max_actuators := ac\<rparr>);
          (mt, s4) = io_reg_get1 (PX4IO_PAGE_CONFIG P) (PX4IO_P_CONFIG_MAX_TRANSFER P)
                       (s3\<lparr>max_controls := cc\<rparr>);
          (rc, s5) = io_reg_get1 (PX4IO_PAGE_CONFIG P) (PX4IO_P_CONFIG_RC_INPUT_COUNT P)
                       (s4\<lparr>max_transfer := mt - 2\<rparr>)
      in s5\<lparr>max_rc_input := rc\<rparr>)"

definition config_out_of_range :: "px4io \<Rightarrow> bool" where
  "config_out_of_range s \<longleftrightarrow>
     max_actuators s < 1 \<or> max_actuators s > 16 \<or>
     max_transfer s < 16 \<or> max_transfer s > 255 \<or>
     max_rc_input s < 1 \<or> max_rc_input s > 255"

text \<open>The body of the out-of-range branch: the log messages, safety forced on, then the
  reboot into the bootloader. The results of the two writes are dropped.\<close>

definition reboot_into_bootloader :: "protocol \<Rightarrow> px4io \<Rightarrow> px4io" where
  "reboot_into_bootloader P s =
     (let s1 = px4_warn ''config read error'' s;
          s2 = mavlink_log ''[IO] config read fail, abort.'' s1;
          (r1, s3) = io_reg_set1 (PX4IO_PAGE_SETUP P) (PX4IO_P_SETUP_FORCE_SAFETY_ON P)
                       (PX4IO_FORCE_SAFETY_MAGIC P) s2;
          (r2, s4) = io_reg_set1 (PX4IO_PAGE_SETUP P) (PX4IO_P_SETUP_REBOOT_BL P)
                       (PX4IO_REBOOT_BL_MAGIC P) s3
      in s4)"

subsection \<open>Start-up: recovery from an in-air restart\<close>

text \<open>
  The three waits. Each is handed \<^verbatim>\<open>try_start_time\<close>, the local message \<^verbatim>\<open>actuator_armed\<close>
  and the number of \<^verbatim>\<open>update\<close> calls made so far, and ends with \<open>Inl 1\<close> for
  \<^verbatim>\<open>return 1\<close> or with \<open>Inr\<close> of the message and the call count when the loop is left.

  First wait: \<^verbatim>\<open>do { if (update) break; px4_usleep(10000); if ((hrt_absolute_time() -
  try_start_time) / 1000 > 3000) return 1; } while (true)\<close>.
\<close>

fun wait_armed_update ::
  "nat \<Rightarrow> init_env \<Rightarrow> hrt_abstime \<Rightarrow> nat \<Rightarrow> px4io \<Rightarrow>
   ((int + actuator_armed_s \<times> nat) \<times> px4io) option" where
  "wait_armed_update 0 env try_start_time polls s = None"
| "wait_armed_update (Suc n) env try_start_time polls s =
     (case armed_updates env polls of
        Some msg \<Rightarrow> Some (Inr (msg, Suc polls), s)
      | None \<Rightarrow>
          let s1 = px4_usleep 10000 s;
              (now, s2) = hrt_absolute_time s1
          in if (now - try_start_time) div 1000 > 3000
             then Some (Inl 1, mavlink_log ''Failed to recover from in-air restart (1), abort'' s2)
             else wait_armed_update n env try_start_time (Suc polls) s2)"

text \<open>Second wait, entered when IO reports force-failsafe: update, sleep 50 ms, give up
  when more than 2000 ms have passed since \<^verbatim>\<open>try_start_time\<close>, re-send the command, and
  go round while \<^verbatim>\<open>force_failsafe\<close> is not set.\<close>

fun spin_force_failsafe ::
  "nat \<Rightarrow> init_env \<Rightarrow> hrt_abstime \<Rightarrow> hrt_abstime \<Rightarrow> actuator_armed_s \<Rightarrow> nat \<Rightarrow> px4io \<Rightarrow>
   ((int + actuator_armed_s \<times> nat) \<times> px4io) option" where
  "spin_force_failsafe 0 env vcmd_timestamp try_start_time actuator_armed polls s = None"
| "spin_force_failsafe (Suc n) env vcmd_timestamp try_start_time actuator_armed polls s =
     (let actuator_armed' =
            (case armed_updates env polls of Some msg \<Rightarrow> msg | None \<Rightarrow> actuator_armed);
          s1 = px4_usleep 50000 s;
          (now, s2) = hrt_absolute_time s1
      in if (now - try_start_time) div 1000 > 2000
         then Some (Inl 1, mavlink_log ''Failed to recover from in-air restart (3), abort'' s2)
         else if \<not> force_failsafe actuator_armed'
         then spin_force_failsafe n env vcmd_timestamp try_start_time actuator_armed' (Suc polls)
                (px4_warn ''re-sending flight termination cmd''
                  (vcmd_publish VEHICLE_CMD_DO_FLIGHTTERMINATION vcmd_timestamp s2))
         else Some (Inr (actuator_armed', Suc polls), s2))"

text \<open>Third wait: the same with the arm command, until \<^verbatim>\<open>armed\<close> is set.\<close>

fun spin_armed ::
  "nat \<Rightarrow> init_env \<Rightarrow> hrt_abstime \<Rightarrow> hrt_abstime \<Rightarrow> actuator_armed_s \<Rightarrow> nat \<Rightarrow> px4io \<Rightarrow>
   ((int + actuator_armed_s \<times> nat) \<times> px4io) option" where
  "spin_armed 0 env vcmd_timestamp try_start_time actuator_armed polls s = None"
| "spin_armed (Suc n) env vcmd_timestamp try_start_time actuator_armed polls s =
     (let actuator_armed' =
            (case armed_updates env polls of Some msg \<Rightarrow> msg | None \<Rightarrow> actuator_armed);
          s1 = px4_usleep 50000 s;
          (now, s2) = hrt_absolute_time s1
      in if (now - try_start_time) div 1000 > 2000
         then Some (Inl 1, mavlink_log ''Failed to recover from in-air restart (2), abort'' s2)
         else if \<not> armed actuator_armed'
         then spin_armed n env vcmd_timestamp try_start_time actuator_armed' (Suc polls)
                (px4_warn ''re-sending arm cmd''
                  (vcmd_publish VEHICLE_CMD_COMPONENT_ARM_DISARM vcmd_timestamp s2))
         else Some (Inr (actuator_armed', Suc polls), s2))"

text \<open>The force-failsafe step: skipped unless the arming register has the force-failsafe
  bit.\<close>

definition force_failsafe_step ::
  "protocol \<Rightarrow> init_env \<Rightarrow> nat \<Rightarrow> uint16_t \<Rightarrow> hrt_abstime \<Rightarrow> actuator_armed_s \<Rightarrow> nat \<Rightarrow> px4io \<Rightarrow>
   ((int + actuator_armed_s \<times> nat) \<times> px4io) option" where
  "force_failsafe_step P env fuel reg try_start_time actuator_armed polls s =
     (if reg AND PX4IO_P_SETUP_ARMING_FORCE_FAILSAFE P \<noteq> 0
      then
        let s1 = mavlink_log ''IO is in failsafe, force failsafe'' s;
            (ts, s2) = hrt_absolute_time s1
        in spin_force_failsafe fuel env ts try_start_time actuator_armed polls
             (vcmd_publish VEHICLE_CMD_DO_FLIGHTTERMINATION ts s2)
      else Some (Inr (actuator_armed, polls), s))"

text \<open>The arm step: the arm command is sent once, then the third wait.\<close>

definition arm_step ::
  "init_env \<Rightarrow> nat \<Rightarrow> hrt_abstime \<Rightarrow> actuator_armed_s \<Rightarrow> nat \<Rightarrow> px4io \<Rightarrow>
   ((int + actuator_armed_s \<times> nat) \<times> px4io) option" where
  "arm_step env fuel try_start_time actuator_armed polls s =
     (let (ts, s1) = hrt_absolute_time s
      in spin_armed fuel env ts try_start_time actuator_armed polls
           (vcmd_publish VEHICLE_CMD_COMPONENT_ARM_DISARM ts s1))"

text \<open>The entry to the in-air restart branch: the status poll, the log message, and the
  one reading of \<^verbatim>\<open>try_start_time\<close>.\<close>

definition recovery_entry :: "protocol \<Rightarrow> px4io \<Rightarrow> hrt_abstime \<times> px4io" where
  "recovery_entry P s =
     (let (r, s1) = io_get_status P s
      in hrt_absolute_time (mavlink_log ''RECOVERING FROM FMU IN-AIR RESTART'' s1))"

text \<open>
  The in-air restart branch of \<^verbatim>\<open>init\<close>, from \<^verbatim>\<open>io_get_status()\<close> to the restart type.
  \<^verbatim>\<open>try_start_time\<close> is handed to all three waits. \<open>Inl\<close> is an early end of \<^verbatim>\<open>init\<close>;
  \<open>Inr\<close> goes on after the branch.
\<close>

definition inair_restart ::
  "protocol \<Rightarrow> init_env \<Rightarrow> nat \<Rightarrow> uint16_t \<Rightarrow> px4io \<Rightarrow> ((init_result + unit) \<times> px4io) option" where
  "inair_restart P env fuel reg s =
     (let (try_start_time, s3) = recovery_entry P s
      in case wait_armed_update fuel env try_start_time 0 s3 of
           None \<Rightarrow> None
         | Some (Inl c, s4) \<Rightarrow> Some (Inl (Return c), s4)
         | Some (Inr (actuator_armed, polls), s4) \<Rightarrow>
             if fst (param_get ''MAV_SYS_ID'' 0 s4) then Some (Inl (Errx 1), s4)
             else if fst (param_get ''MAV_COMP_ID'' 0 s4) then Some (Inl (Errx 1), s4)
             else
               (case force_failsafe_step P env fuel reg try_start_time actuator_armed polls s4 of
                  None \<Rightarrow> None
                | Some (Inl c, s5) \<Rightarrow> Some (Inl (Return c), s5)
                | Some (Inr (actuator_armed2, polls2), s5) \<Rightarrow>
                    (case arm_step env fuel try_start_time actuator_armed2 polls2 s5 of
                       None \<Rightarrow> None
                     | Some (Inl c, s6) \<Rightarrow> Some (Inl (Return c), s6)
                     | Some (Inr (actuator_armed3, polls3), s6) \<Rightarrow>
                         Some (Inr (),
                           if snd (param_get ''SYS_RESTART_TYPE'' 0 s6) \<noteq> DM_INIT_REASON_IN_FLIGHT P
                           then param_set ''SYS_RESTART_TYPE'' (DM_INIT_REASON_IN_FLIGHT P) s6
                           else s6))))"

subsection \<open>Start-up: cold boot, last steps, and the whole\<close>

definition restart_type_power_on :: "protocol \<Rightarrow> px4io \<Rightarrow> px4io" where
  "restart_type_power_on P s =
     (if snd (param_get ''SYS_RESTART_TYPE'' 0 s) \<noteq> DM_INIT_REASON_POWER_ON P
      then param_set ''SYS_RESTART_TYPE'' (DM_INIT_REASON_POWER_ON P) s
      else s)"

text \<open>The \<^verbatim>\<open>else\<close> branch: disarm IO, then disable RC handling or upload the RC
  configuration, then the restart type.\<close>

definition cold_boot :: "protocol \<Rightarrow> init_env \<Rightarrow> px4io \<Rightarrow> (init_result + unit) \<times> px4io" where
  "cold_boot P env s =
     (let (r, s1) = io_reg_modify (PX4IO_PAGE_SETUP P) (PX4IO_P_SETUP_ARMING P)
                      (PX4IO_P_SETUP_ARMING_FMU_ARMED P OR PX4IO_P_SETUP_ARMING_INAIR_RESTART_OK P
                         OR PX4IO_P_SETUP_ARMING_LOCKDOWN P) 0 s
      in if rc_handling_disabled s1
         then
           let (ret, s2) = io_disable_rc_handling P s1
           in if ret \<noteq> OK then (Inl (Return ret), px4_warn ''failed disabling RC handling'' s2)
              else (Inr (), restart_type_power_on P s2)
         else
           let (ret, s2) = io_set_rc_config P env s1
           in if ret \<noteq> OK then (Inl (Return ret), mavlink_log ''IO RC config upload fail'' s2)
              else (Inr (), restart_type_power_on P s2))"

text \<open>From the safety circuit breaker to \<^verbatim>\<open>return OK\<close>.\<close>

definition init_finish :: "protocol \<Rightarrow> init_env \<Rightarrow> px4io \<Rightarrow> init_result \<times> px4io" where
  "init_finish P env s =
     (let s1 = (if cbrk_io_safety env
                then snd (io_reg_set1 (PX4IO_PAGE_SETUP P) (PX4IO_P_SETUP_FORCE_SAFETY_OFF P)
                            (PX4IO_FORCE_SAFETY_MAGIC P) s)
                else s);
          s2 = s1\<lparr>events := events s1 @ [RegisterClassDevname]\<rparr>;
          s3 = updateDisarmed P env s2;
          s4 = updateFailsafe P env s3
      in (Return OK, s4\<lparr>events := events s4 @ [ScheduleNow]\<rparr>))"

text \<open>From the read of the arming register to the end: \<^verbatim>\<open>sizeof(reg)\<close>, 2, is passed as the
  number of registers, and \<^verbatim>\<open>reg\<close> is the first of them.\<close>

definition init_arming :: "protocol \<Rightarrow> init_env \<Rightarrow> nat \<Rightarrow> px4io \<Rightarrow> (init_result \<times> px4io) option" where
  "init_arming P env fuel s =
     (let (ret, regs, s1) = io_reg_get (PX4IO_PAGE_SETUP P) (PX4IO_P_SETUP_ARMING P) [0] 2 s
      in if ret \<noteq> OK then Some (Return ret, s1)
         else
           let reg = hd regs
           in if reg AND PX4IO_P_SETUP_ARMING_INAIR_RESTART_OK P \<noteq> 0
                 \<and> reg AND PX4IO_P_SETUP_ARMING_FMU_ARMED P \<noteq> 0
              then (case inair_restart P env fuel reg s1 of
                      None \<Rightarrow> None
                    | Some (Inl res, s2) \<Rightarrow> Some (res, s2)
                    | Some (Inr u, s2) \<Rightarrow> Some (init_finish P env s2))
              else (case cold_boot P env s1 of
                      (Inl res, s2) \<Rightarrow> Some (res, s2)
                    | (Inr u, s2) \<Rightarrow> Some (init_finish P env s2)))"

text \<open>The first lines of \<^verbatim>\<open>init()\<close>: unless the last start was a power-on, the restart type
  is unknown for now.\<close>

definition restart_type_volatile :: "protocol \<Rightarrow> px4io \<Rightarrow> px4io" where
  "restart_type_volatile P s =
     (case params s ''SYS_RESTART_TYPE'' of
        None \<Rightarrow> s
      | Some prev_val \<Rightarrow>
          if prev_val \<noteq> DM_INIT_REASON_POWER_ON P
          then param_set_no_notification ''SYS_RESTART_TYPE'' (DM_INIT_REASON_VOLATILE P) s
          else s)"

text \<open>\<^verbatim>\<open>init()\<close>.\<close>

definition init :: "protocol \<Rightarrow> init_env \<Rightarrow> nat \<Rightarrow> px4io \<Rightarrow> (init_result \<times> px4io) option" where
  "init P env fuel s =
     (let s0 = restart_type_volatile P s
      in if cdev_init env \<noteq> OK then Some (Return (cdev_init env), px4_warn ''init failed'' s0)
         else
           let (start_try_time, s1) = hrt_absolute_time s0
           in case probe_protocol fuel P start_try_time s1 of
                None \<Rightarrow> None
              | Some (protocol, s2) \<Rightarrow>
                  if protocol = io_reg_get_error
                  then Some (Return (- 1), mavlink_log ''Failed to communicate with IO, abort.'' s2)
                  else if protocol \<noteq> PX4IO_PROTOCOL_VERSION P
                  then Some (Return (- 1), mavlink_log ''IO protocol/firmware mismatch, abort.'' s2)
                  else
                    let s3 = read_config P s2
                    in if config_out_of_range s3
                       then Some (Return (- 1), reboot_into_bootloader P s3)
                       else
                         let s4 = (if max_rc_input s3 > RC_INPUT_MAX_CHANNELS P
                                   then s3\<lparr>max_rc_input := RC_INPUT_MAX_CHANNELS P\<rparr> else s3);
                             s5 = s4\<lparr>rssi_pwm_chan := snd (param_get ''RC_RSSI_PWM_CHAN'' (rssi_pwm_chan s4) s4),
                                     rssi_pwm_max := snd (param_get ''RC_RSSI_PWM_MAX'' (rssi_pwm_max s4) s4),
                                     rssi_pwm_min := snd (param_get ''RC_RSSI_PWM_MIN'' (rssi_pwm_min s4) s4)\<rparr>
                         in init_arming P env fuel s5)"

text \<open>\<^verbatim>\<open>init(rc_handling_disabled, hitl_mode)\<close>.\<close>

definition init_flags ::
  "protocol \<Rightarrow> init_env \<Rightarrow> nat \<Rightarrow> bool \<Rightarrow> bool \<Rightarrow> px4io \<Rightarrow> (init_result \<times> px4io) option" where
  "init_flags P env fuel disable_rc hitl s =
     init P env fuel (s\<lparr>rc_handling_disabled := disable_rc, hitl_mode := hitl\<rparr>)"

subsection \<open>Concrete values for evaluation\<close>

text \<open>One assignment of the protocol constants: single-bit masks and distinct pages.\<close>

definition example_protocol :: protocol where
  "example_protocol =
     \<lparr>PX4IO_PAGE_STATUS = 1, PX4IO_P_STATUS_FLAGS = 2,
      PX4IO_P_STATUS_FLAGS_ARM_SYNC = 0x200, PX4IO_P_STATUS_FLAGS_SAFETY_OFF = 0x1000,
      PX4IO_PAGE_SETUP = 50, PX4IO_P_SETUP_ARMING = 1,
      PX4IO_P_SETUP_ARMING_IO_ARM_OK = 0x1, PX4IO_P_SETUP_ARMING_FMU_ARMED = 0x2,
      PX4IO_P_SETUP_ARMING_INAIR_RESTART_OK = 0x10,
      PX4IO_P_SETUP_ARMING_RC_HANDLING_DISABLED = 0x40,
      PX4IO_P_SETUP_ARMING_LOCKDOWN = 0x80, PX4IO_P_SETUP_ARMING_FORCE_FAILSAFE = 0x100,
      PX4IO_P_SETUP_ARMING_TERMINATION_FAILSAFE = 0x200,
      PX4IO_P_SETUP_ARMING_FMU_PREARMED = 0x800,
      PX4IO_P_SETUP_SET_DEBUG = 9, PX4IO_P_SETUP_REBOOT_BL = 10, PX4IO_REBOOT_BL_MAGIC = 14662,
      PX4IO_P_SETUP_FORCE_SAFETY_OFF = 12, PX4IO_P_SETUP_FORCE_SAFETY_ON = 14,
      PX4IO_FORCE_SAFETY_MAGIC = 22027, PX4IO_PAGE_DIRECT_PWM = 54,
      PX4IO_PROTOCOL_VERSION = 4, PX4IO_PAGE_CONFIG = 0, PX4IO_P_CONFIG_PROTOCOL_VERSION = 0,
      PX4IO_P_CONFIG_HARDWARE_VERSION = 1, PX4IO_P_CONFIG_MAX_TRANSFER = 3,
      PX4IO_P_CONFIG_CONTROL_COUNT = 4, PX4IO_P_CONFIG_ACTUATOR_COUNT = 5,
      PX4IO_P_CONFIG_RC_INPUT_COUNT = 6, PX4IO_P_STATUS_FREEMEM = 0,
      PX4IO_P_STATUS_FLAGS_INIT_OK = 0x400, PX4IO_PAGE_SERVOS = 3, PX4IO_PAGE_RAW_RC_INPUT = 4,
      PX4IO_P_RAW_RC_COUNT = 0, PX4IO_P_RAW_RC_BASE = 6, PX4IO_PAGE_RC_CONFIG = 53,
      PX4IO_P_RC_CONFIG_STRIDE = 6, PX4IO_P_RC_CONFIG_ASSIGNMENT = 4,
      PX4IO_P_RC_CONFIG_OPTIONS = 5, PX4IO_P_RC_CONFIG_OPTIONS_ENABLED = 0x1,
      PX4IO_P_RC_CONFIG_OPTIONS_REVERSE = 0x2, PX4IO_PAGE_DISARMED_PWM = 109,
      PX4IO_PAGE_FAILSAFE_PWM = 55, PWM_OUTPUT_MAX_CHANNELS = 16, RC_INPUT_MAX_CHANNELS = 18,
      DM_INIT_REASON_POWER_ON = 0, DM_INIT_REASON_IN_FLIGHT = 1, DM_INIT_REASON_VOLATILE = 2\<rparr>"

text \<open>An interface that completes every transfer and reads every register as \<open>v\<close>, and one
  on which every transfer fails.\<close>

definition good_device :: "uint16_t \<Rightarrow> device" where
  "good_device v = \<lparr>dev_read = (\<lambda>h a n. (sint n, \<lambda>i. v)), dev_write = (\<lambda>h a vs n. sint n)\<rparr>"

definition dead_device :: device where
  "dead_device = \<lparr>dev_read = (\<lambda>h a n. (- 1, \<lambda>i. 0)), dev_write = (\<lambda>h a vs n. - 1)\<rparr>"

text \<open>A clock that advances by \<open>step\<close> microseconds with every reading, from \<open>t0\<close>.\<close>

definition step_clock :: "nat \<Rightarrow> nat \<Rightarrow> nat \<Rightarrow> hrt_abstime" where
  "step_clock t0 step k = of_nat (t0 + k * step)"

text \<open>States for evaluation: a fresh driver on an interface that reads \<open>0xF0\<close>, a fresh
  driver on a dead interface, and a driver whose cached status has safety-off and RC-OK
  (bit 2) set on an interface that reads \<open>0x4\<close>.\<close>

definition rmw_state :: px4io where
  "rmw_state = px4io_new (good_device 0xF0) (step_clock 0 1) 16"

definition dead_state :: px4io where
  "dead_state = px4io_new dead_device (step_clock 0 1) 16"

definition reset_state :: px4io where
  "reset_state = (px4io_new (good_device 0x4) (step_clock 0 1) 16)\<lparr>status := 0x1004\<rparr>"

text \<open>Two \<^verbatim>\<open>actuator_armed\<close> messages (armed and ready to arm; ready to arm only), a fresh
  driver, a driver that has already sent the first message's bits, a driver with four
  cached output values, and one whose cached status has safety-off set.\<close>

definition armed_msg :: actuator_armed_s where
  "armed_msg = \<lparr>armed = True, prearmed = False, ready_to_arm = True, lockdown = False,
                manual_lockdown = False, force_failsafe = False, in_esc_calibration_mode = False\<rparr>"

definition standby_msg :: actuator_armed_s where
  "standby_msg = \<lparr>armed = False, prearmed = False, ready_to_arm = True, lockdown = False,
                  manual_lockdown = False, force_failsafe = False, in_esc_calibration_mode = False\<rparr>"

definition fresh_state :: px4io where
  "fresh_state = px4io_new (good_device 0) (step_clock 0 1) 16"

definition armed_written_state :: px4io where
  "armed_written_state = snd (io_set_arming_state example_protocol (Some armed_msg) fresh_state)"

definition outputs_state :: "nat \<Rightarrow> px4io" where
  "outputs_state t0 =
     (px4io_new (good_device 0) (step_clock t0 1) 4)\<lparr>prev_outputs := [1500, 1500, 900, 2000]\<rparr>"

definition safety_off_state :: px4io where
  "safety_off_state = (px4io_new (good_device 0) (step_clock 0 1) 16)\<lparr>status := 0x1000\<rparr>"

text \<open>An interface on which the third transfer, a read, fails and every other transfer
  completes, a register reading 0 before the first transfer and 3 after it; a fresh
  driver on it; and that driver after the arming bits of \<open>armed_msg\<close> were written, and
  after the register-modify for the bits of \<open>standby_msg\<close> failed at its read.\<close>

definition flaky_device :: device where
  "flaky_device =
     \<lparr>dev_read = (\<lambda>h a n. if length h = 2 then (- 1, \<lambda>i. 0)
                           else (sint n, \<lambda>i. if h = [] then 0 else 3)),
      dev_write = (\<lambda>h a vs n. sint n)\<rparr>"

definition flaky_state :: px4io where
  "flaky_state = px4io_new flaky_device (step_clock 0 1) 16"

definition flaky_s1 :: px4io where
  "flaky_s1 =
     flaky_state\<lparr>trace := [LinkRead 0x3201 1, LinkWrite 0x3201 [0x3] 1],
                 last_written_arming_s := 0x3, last_written_arming_c := 0x900\<rparr>"

definition flaky_s2 :: px4io where
  "flaky_s2 =
     flaky_s1\<lparr>trace := [LinkRead 0x3201 1, LinkWrite 0x3201 [0x3] 1, LinkRead 0x3201 1],
              last_written_arming_s := 0x1, last_written_arming_c := 0x902\<rparr>"

text \<open>An interface that completes every transfer and answers reads from a register file;
  the registers of an IO whose transfer-limit register holds 3; and surroundings in
  which \<^verbatim>\<open>CDev::init()\<close> succeeds and the arming feed never updates.\<close>

definition reg_device :: "(uint32_t \<Rightarrow> uint16_t) \<Rightarrow> device" where
  "reg_device regs =
     \<lparr>dev_read = (\<lambda>h a n. (sint n, \<lambda>i. regs (a + of_nat i))), dev_write = (\<lambda>h a vs n. sint n)\<rparr>"

definition short_transfer_regs :: "uint32_t \<Rightarrow> uint16_t" where
  "short_transfer_regs a =
     (if a = 0 then 4 else if a = 1 then 2 else if a = 3 then 3 else if a = 4 then 8
      else if a = 5 then 8 else if a = 6 then 18 else 0)"

definition quiet_env :: init_env where
  "quiet_env =
     \<lparr>cdev_init = 0, armed_updates = (\<lambda>k. None), rc_rev_negative = (\<lambda>i. False),
      stack_regs = (\<lambda>i j. 0), cbrk_io_safety = False, disarmed_value = (\<lambda>i. 900),
      failsafe_value = (\<lambda>i. 0)\<rparr>"

text \<open>
  An in-air restart. IO reports in-air-restart-ok and FMU-armed in its arming register.
  The clock reads 10.0005 s when \<^verbatim>\<open>try_start_time\<close> is taken (its sixth reading); each of
  the next \<open>n\<close> readings is 10 ms after the one before, as after a 10 ms sleep; the
  reading after those is 100 microseconds later, and the one after that another 50 ms
  later. In \<open>late_env\<close> the arming feed delivers its first message, armed, at the 211th
  poll, 2.1 s after \<^verbatim>\<open>try_start_time\<close>.
\<close>

definition inair_regs :: "uint32_t \<Rightarrow> uint16_t" where
  "inair_regs a =
     (if a = 0 then 4 else if a = 1 then 2 else if a = 3 then 66 else if a = 4 then 8
      else if a = 5 then 2 else if a = 6 then 18 else if a = 0x3201 then 0x12 else 0)"

definition late_env :: init_env where
  "late_env = quiet_env\<lparr>armed_updates := (\<lambda>k. if k = 210 then Some armed_msg else None)\<rparr>"

definition tick_clock :: "nat \<Rightarrow> nat \<Rightarrow> hrt_abstime" where
  "tick_clock n k =
     (if k < 6 then [10000000, 10000100, 10000200, 10000300, 10000400, 10000500] ! k
      else if k < 6 + n then 10000500 + 10000 * of_nat (k - 5)
      else if k = 6 + n then 10000500 + 10000 * of_nat n + 100
      else 10000500 + 10000 * of_nat n + 50100)"

text \<open>The driver before \<^verbatim>\<open>init\<close>, after the configuration reads, after the read of the arming
  register, on entry to the first wait, after the first wait (210 rounds without an
  update, then the update), and at the end.\<close>

definition inair_state :: "nat \<Rightarrow> px4io" where
  "inair_state n =
     (px4io_new (reg_device inair_regs) (tick_clock n) 16)
       \<lparr>params := [''SYS_RESTART_TYPE'' \<mapsto> 0, ''MAV_SYS_ID'' \<mapsto> 1, ''MAV_COMP_ID'' \<mapsto> 1]\<rparr>"

definition inair_s1 :: "nat \<Rightarrow> px4io" where
  "inair_s1 n =
     (inair_state n)
       \<lparr>trace := [LinkRead 0 1, LinkRead 1 1, LinkRead 5 1, LinkRead 4 1, LinkRead 3 1,
                  LinkRead 6 1],
        clock_reads := 1, max_transfer := 64, events := [Usleep 2000],
        hardware := 2, max_actuators := 2, max_controls := 8, max_rc_input := 18\<rparr>"

definition inair_s2 :: "nat \<Rightarrow> px4io" where
  "inair_s2 n = (inair_s1 n)\<lparr>trace := trace (inair_s1 n) @ [LinkRead 12801 2]\<rparr>"

definition inair_s3 :: "nat \<Rightarrow> px4io" where
  "inair_s3 n =
     (inair_s2 n)
       \<lparr>trace := trace (inair_s2 n) @
                 [LinkRead 258 6, LinkRead 258 1, LinkWrite 258 [512] 1, LinkRead 12801 1,
                  LinkRead 256 1, LinkRead 768 1, LinkRead 769 1, LinkRead 1024 1],
        clock_reads := 6,
        safety_published := [\<lparr>timestamp = 10000200, safety_switch_available = True,
                               safety_off = False\<rparr>],
        safety := \<lparr>timestamp = 10000200, safety_switch_available = True, safety_off = False\<rparr>,
        events := [Usleep 2000, PublishStatus 10000400,
                   MavlinkLog ''RECOVERING FROM FMU IN-AIR RESTART''],
        setup_arming := 18, last_status_publish := 10000400\<rparr>"

definition inair_s4 :: px4io where
  "inair_s4 =
     (inair_s3 210)\<lparr>clock_reads := 216,
                    events := events (inair_s3 210) @ replicate 210 (Usleep 10000)\<rparr>"

definition inair_s5 :: px4io where
  "inair_s5 =
     inair_s4\<lparr>clock_reads := 218,
              events := events inair_s4 @
                [PublishVehicleCommand VEHICLE_CMD_COMPONENT_ARM_DISARM 12100600, Usleep 50000,
                 MavlinkLog ''Failed to recover from in-air restart (2), abort'']\<rparr>"

section \<open>Properties of the register transport\<close>

lemma EINVAL_neq [simp]: "- EINVAL \<noteq> OK" "- EINVAL \<noteq> - 1" "OK \<noteq> - 1" "- 1 \<noteq> OK"
  by (simp_all add: EINVAL_def OK_def)

lemma example_protocol_fields:
  "PX4IO_PAGE_SETUP example_protocol = 50" "PX4IO_P_SETUP_ARMING example_protocol = 1"
  "PX4IO_P_SETUP_ARMING_FORCE_FAILSAFE example_protocol = 0x100"
  "PX4IO_P_SETUP_ARMING_INAIR_RESTART_OK example_protocol = 0x10"
  "PX4IO_P_SETUP_ARMING_FMU_ARMED example_protocol = 0x2"
  "DM_INIT_REASON_IN_FLIGHT example_protocol = 1"
  by (simp_all add: example_protocol_def)

lemma too_many_iff:
  fixes n m :: uint32_t
  shows "n > m div 2 \<longleftrightarrow> unat n * 2 > unat m"
proof -
  have "unat (m div 2) = unat m div 2"
    by (simp add: unat_div)
  then show ?thesis
    by (simp add: word_less_nat_alt) linarith
qed

text \<open>
  C2. For every register count such that count times the 2-byte word size exceeds the
  transfer limit, both \<^verbatim>\<open>io_reg_get\<close> and \<^verbatim>\<open>io_reg_set\<close> return \<^verbatim>\<open>-EINVAL\<close> (too many
  registers) and leave the driver state, and with it the trace of interface calls, as it
  was: neither the read nor the write primitive is invoked.
\<close>

theorem too_many_registers_rejected:
  assumes "unat num_values * 2 > unat (max_transfer s)"
  shows "io_reg_get page offset buf num_values s = (- EINVAL, buf, s) \<and>
         io_reg_set page offset values num_values s = (- EINVAL, s) \<and>
         trace (snd (snd (io_reg_get page offset buf num_values s))) = trace s \<and>
         trace (snd (io_reg_set page offset values num_values s)) = trace s"
  using assms by (simp add: io_reg_get_def io_reg_set_def too_many_iff)

lemma one_gt_half_iff:
  fixes m :: uint32_t
  shows "1 > m div 2 \<longleftrightarrow> m < 2"
  using too_many_iff [of m 1] by (simp add: word_less_nat_alt del: word_less_1)

lemma half_zero_iff:
  fixes m :: uint32_t
  shows "m div 2 = 0 \<longleftrightarrow> m < 2"
  using one_gt_half_iff [of m] by simp

lemma io_reg_set1_link:
  "io_reg_set1 page offset v s =
     (if max_transfer s < 2 then (- EINVAL, s)
      else (if dev_write (interface s) (trace s) (reg_address page offset) [v] 1 \<noteq> 1 then - 1 else OK,
            s\<lparr>trace := trace s @ [LinkWrite (reg_address page offset) [v] 1]\<rparr>))"
  by (simp add: io_reg_set1_def io_reg_set_def half_zero_iff Let_def)

lemma io_reg_get_single_link:
  "io_reg_get page offset [v0] 1 s =
     (if max_transfer s < 2 then (- EINVAL, [v0], s)
      else (if fst (dev_read (interface s) (trace s) (reg_address page offset) 1) \<noteq> 1 then - 1 else OK,
            [snd (dev_read (interface s) (trace s) (reg_address page offset) 1) 0],
            s\<lparr>trace := trace s @ [LinkRead (reg_address page offset) 1]\<rparr>))"
  by (simp add: io_reg_get_def half_zero_iff Let_def split: prod.splits)

lemma io_reg_modify_link:
  "io_reg_modify page offset clearbits setbits s =
     (if max_transfer s < 2 then (- EINVAL, s)
      else
        let a = reg_address page offset;
            rd = dev_read (interface s) (trace s) a 1;
            s1 = s\<lparr>trace := trace s @ [LinkRead a 1]\<rparr>
        in if fst rd \<noteq> 1 then (- 1, s1)
           else
             let v = (snd rd 0 AND NOT clearbits) OR setbits
             in (if dev_write (interface s) (trace s1) a [v] 1 \<noteq> 1 then - 1 else OK,
                 s1\<lparr>trace := trace s1 @ [LinkWrite a [v] 1]\<rparr>))"
  by (simp add: io_reg_modify_def io_reg_get_single_link io_reg_set1_link Let_def)

theorem too_many_registers_rejected_witness:
  "unat (9 :: uint32_t) * 2 > unat (max_transfer (px4io_new dead_device (step_clock 0 1) 16)) \<and>
   io_reg_get 1 2 [0, 0] 9 (px4io_new dead_device (step_clock 0 1) 16)
     = (- EINVAL, [0, 0], px4io_new dead_device (step_clock 0 1) 16) \<and>
   io_reg_set 1 2 [1500] 9 (px4io_new dead_device (step_clock 0 1) 16)
     = (- EINVAL, px4io_new dead_device (step_clock 0 1) 16)"
proof -
  have h: "unat (9 :: uint32_t) * 2 > unat (max_transfer (px4io_new dead_device (step_clock 0 1) 16))"
    by (simp add: px4io_new_def)
  show ?thesis
    using h too_many_registers_rejected [OF h, of 1 2 "[0, 0]" "[1500]"] by simp
qed

text \<open>
  C10. \<^verbatim>\<open>io_reg_modify\<close> first reads the target register. When that read fails, it returns
  the read's error and the state the read left, and the trace holds no write that was not
  there before: the remote register is not modified. When the read succeeds, the one call
  that follows on the interface is a write of exactly (old value AND NOT clearbits) OR
  setbits to the same address.
\<close>

theorem io_reg_modify_read_modify_write:
  "(fst (io_reg_get page offset [0] 1 s) \<noteq> OK \<longrightarrow>
      fst (io_reg_modify page offset clearbits setbits s) = fst (io_reg_get page offset [0] 1 s) \<and>
      snd (io_reg_modify page offset clearbits setbits s) = snd (snd (io_reg_get page offset [0] 1 s)) \<and>
      writes_of (trace (snd (io_reg_modify page offset clearbits setbits s))) = writes_of (trace s)) \<and>
   (fst (io_reg_get page offset [0] 1 s) = OK \<longrightarrow>
      trace (snd (io_reg_modify page offset clearbits setbits s)) =
        trace (snd (snd (io_reg_get page offset [0] 1 s))) @
          [LinkWrite (reg_address page offset)
             [(hd (fst (snd (io_reg_get page offset [0] 1 s))) AND NOT clearbits) OR setbits] 1])"
  by (simp add: io_reg_modify_link io_reg_get_single_link Let_def writes_of_def)


theorem io_reg_modify_read_modify_write_witness:
  "fst (io_reg_get 50 1 [0] 1 rmw_state) = OK \<and>
   trace (snd (io_reg_modify 50 1 0x30 0x1 rmw_state)) = [LinkRead 0x3201 1, LinkWrite 0x3201 [0xC1] 1] \<and>
   fst (io_reg_get 50 1 [0] 1 dead_state) \<noteq> OK \<and>
   fst (io_reg_modify 50 1 0x30 0x1 dead_state) = - 1 \<and>
   writes_of (trace (snd (io_reg_modify 50 1 0x30 0x1 dead_state))) = []"
  using io_reg_modify_read_modify_write
      [where page = 50 and offset = 1 and s = rmw_state and clearbits = "0x30" and setbits = "0x1"]
    io_reg_modify_read_modify_write
      [where page = 50 and offset = 1 and s = dead_state and clearbits = "0x30" and setbits = "0x1"]
  by (simp add: io_reg_get_single_link rmw_state_def dead_state_def px4io_new_def good_device_def
      dead_device_def reg_address_def writes_of_def)

lemma io_reg_modify_frame:
  "snd (io_reg_modify page offset clearbits setbits s) =
     s\<lparr>trace := trace (snd (io_reg_modify page offset clearbits setbits s))\<rparr>"
  by (simp add: io_reg_modify_link Let_def)

lemma io_reg_set1_frame:
  "snd (io_reg_set1 page offset v s) = s\<lparr>trace := trace (snd (io_reg_set1 page offset v s))\<rparr>"
  by (simp add: io_reg_set1_link)

lemma io_reg_modify_trace:
  assumes "2 \<le> max_transfer s"
  shows "trace (snd (io_reg_modify page offset clearbits setbits s)) =
           trace s @ LinkRead (reg_address page offset) 1 #
             (if fst (dev_read (interface s) (trace s) (reg_address page offset) 1) = 1
              then [LinkWrite (reg_address page offset)
                      [(snd (dev_read (interface s) (trace s) (reg_address page offset) 1) 0
                          AND NOT clearbits) OR setbits] 1]
              else [])"
  using assms by (simp add: io_reg_modify_link Let_def not_less [symmetric])

section \<open>Properties of the status synchronizer\<close>

text \<open>
  C1, as stated, fails. With safety-off and RC-OK cached, and a poll that returns RC-OK only
  (safety-off and arm-sync clear), the cached status afterwards is 0: the safety-off bit is
  not retained.
\<close>

theorem reset_detection_counterexample:
  "status reset_state AND PX4IO_P_STATUS_FLAGS_SAFETY_OFF example_protocol \<noteq> 0 \<and>
   status reset_state AND PX4IO_P_STATUS_FLAGS_ARM_SYNC example_protocol = 0 \<and>
   (0x4 :: uint16_t) AND PX4IO_P_STATUS_FLAGS_SAFETY_OFF example_protocol = 0 \<and>
   (0x4 :: uint16_t) AND PX4IO_P_STATUS_FLAGS_ARM_SYNC example_protocol = 0 \<and>
   status (snd (io_handle_status example_protocol 0x4 reset_state)) = 0 \<and>
   status (snd (io_handle_status example_protocol 0x4 reset_state))
     \<noteq> PX4IO_P_STATUS_FLAGS_SAFETY_OFF example_protocol"
  by (simp add: io_handle_status_def io_reg_modify_link reset_state_def px4io_new_def
      example_protocol_def good_device_def hrt_elapsed_time_def hrt_absolute_time_def
      step_clock_def Let_def)


lemma io_handle_status_trace_status:
  "trace (snd (io_handle_status P st s)) =
     (if status s AND PX4IO_P_STATUS_FLAGS_SAFETY_OFF P \<noteq> 0
          \<and> st AND PX4IO_P_STATUS_FLAGS_SAFETY_OFF P = 0 \<and> st AND PX4IO_P_STATUS_FLAGS_ARM_SYNC P = 0
      then trace (snd (io_reg_modify (PX4IO_PAGE_STATUS P) (PX4IO_P_STATUS_FLAGS P) 0
                   (PX4IO_P_STATUS_FLAGS_SAFETY_OFF P OR PX4IO_P_STATUS_FLAGS_ARM_SYNC P) s))
      else if status s AND PX4IO_P_STATUS_FLAGS_ARM_SYNC P = 0
      then trace (snd (io_reg_modify (PX4IO_PAGE_STATUS P) (PX4IO_P_STATUS_FLAGS P) 0
                   (PX4IO_P_STATUS_FLAGS_ARM_SYNC P) s))
      else trace s)"
  by (auto simp add: io_handle_status_def hrt_elapsed_time_def hrt_absolute_time_def Let_def
      case_prod_beta)

text \<open>
  C1, amended. When the cached status has safety-off set and a poll returns a status with
  safety-off and arm-sync both clear, \<^verbatim>\<open>io_handle_status\<close> returns what one
  \<^verbatim>\<open>io_reg_modify\<close> of the status flags with no bits to clear and safety-off and arm-sync
  to set returns, and the interface sees exactly the calls of that one register-modify:
  with a transfer limit of at least one register, one read of the status flags followed,
  if the read succeeded, by one write of the value read with both bits set. The cached
  status afterwards is the polled status masked with safety-off, which is 0: no bit is
  retained, safety-off included.
\<close>

theorem reset_detection:
  assumes "status s AND PX4IO_P_STATUS_FLAGS_SAFETY_OFF P \<noteq> 0"
    and "st AND PX4IO_P_STATUS_FLAGS_SAFETY_OFF P = 0"
    and "st AND PX4IO_P_STATUS_FLAGS_ARM_SYNC P = 0"
  shows "fst (io_handle_status P st s) =
           fst (io_reg_modify (PX4IO_PAGE_STATUS P) (PX4IO_P_STATUS_FLAGS P) 0
                 (PX4IO_P_STATUS_FLAGS_SAFETY_OFF P OR PX4IO_P_STATUS_FLAGS_ARM_SYNC P) s) \<and>
         trace (snd (io_handle_status P st s)) =
           trace (snd (io_reg_modify (PX4IO_PAGE_STATUS P) (PX4IO_P_STATUS_FLAGS P) 0
                 (PX4IO_P_STATUS_FLAGS_SAFETY_OFF P OR PX4IO_P_STATUS_FLAGS_ARM_SYNC P) s)) \<and>
         (2 \<le> max_transfer s \<longrightarrow>
            trace (snd (io_handle_status P st s)) =
              trace s @ LinkRead (reg_address (PX4IO_PAGE_STATUS P) (PX4IO_P_STATUS_FLAGS P)) 1 #
                (if fst (dev_read (interface s) (trace s)
                          (reg_address (PX4IO_PAGE_STATUS P) (PX4IO_P_STATUS_FLAGS P)) 1) = 1
                 then [LinkWrite (reg_address (PX4IO_PAGE_STATUS P) (PX4IO_P_STATUS_FLAGS P))
                         [snd (dev_read (interface s) (trace s)
                                (reg_address (PX4IO_PAGE_STATUS P) (PX4IO_P_STATUS_FLAGS P)) 1) 0
                            OR (PX4IO_P_STATUS_FLAGS_SAFETY_OFF P OR PX4IO_P_STATUS_FLAGS_ARM_SYNC P)] 1]
                 else [])) \<and>
         status (snd (io_handle_status P st s)) = st AND PX4IO_P_STATUS_FLAGS_SAFETY_OFF P \<and>
         status (snd (io_handle_status P st s)) = 0"
proof -
  have tr: "trace (snd (io_handle_status P st s)) =
           trace (snd (io_reg_modify (PX4IO_PAGE_STATUS P) (PX4IO_P_STATUS_FLAGS P) 0
                 (PX4IO_P_STATUS_FLAGS_SAFETY_OFF P OR PX4IO_P_STATUS_FLAGS_ARM_SYNC P) s))"
    using assms by (simp add: io_handle_status_trace_status)
  have link: "2 \<le> max_transfer s \<Longrightarrow>
      trace (snd (io_reg_modify (PX4IO_PAGE_STATUS P) (PX4IO_P_STATUS_FLAGS P) 0
                 (PX4IO_P_STATUS_FLAGS_SAFETY_OFF P OR PX4IO_P_STATUS_FLAGS_ARM_SYNC P) s)) =
      trace s @ LinkRead (reg_address (PX4IO_PAGE_STATUS P) (PX4IO_P_STATUS_FLAGS P)) 1 #
                (if fst (dev_read (interface s) (trace s)
                          (reg_address (PX4IO_PAGE_STATUS P) (PX4IO_P_STATUS_FLAGS P)) 1) = 1
                 then [LinkWrite (reg_address (PX4IO_PAGE_STATUS P) (PX4IO_P_STATUS_FLAGS P))
                         [snd (dev_read (interface s) (trace s)
                                (reg_address (PX4IO_PAGE_STATUS P) (PX4IO_P_STATUS_FLAGS P)) 1) 0
                            OR (PX4IO_P_STATUS_FLAGS_SAFETY_OFF P OR PX4IO_P_STATUS_FLAGS_ARM_SYNC P)] 1]
                 else [])"
    by (simp add: io_reg_modify_trace)
  have ret: "fst (io_handle_status P st s) =
           fst (io_reg_modify (PX4IO_PAGE_STATUS P) (PX4IO_P_STATUS_FLAGS P) 0
                 (PX4IO_P_STATUS_FLAGS_SAFETY_OFF P OR PX4IO_P_STATUS_FLAGS_ARM_SYNC P) s)"
    using assms
    by (simp add: io_handle_status_def hrt_elapsed_time_def hrt_absolute_time_def Let_def
        case_prod_beta)
  have st: "status (snd (io_handle_status P st s)) = st AND PX4IO_P_STATUS_FLAGS_SAFETY_OFF P"
    using assms
    by (simp add: io_handle_status_def hrt_elapsed_time_def hrt_absolute_time_def Let_def
        case_prod_beta)
  show ?thesis
    using tr link ret st assms(2) by simp
qed

theorem reset_detection_witness:
  "status reset_state AND PX4IO_P_STATUS_FLAGS_SAFETY_OFF example_protocol \<noteq> 0 \<and>
   (0x4 :: uint16_t) AND PX4IO_P_STATUS_FLAGS_SAFETY_OFF example_protocol = 0 \<and>
   (0x4 :: uint16_t) AND PX4IO_P_STATUS_FLAGS_ARM_SYNC example_protocol = 0 \<and>
   2 \<le> max_transfer reset_state \<and>
   trace (snd (io_handle_status example_protocol 0x4 reset_state)) =
     [LinkRead 0x102 1, LinkWrite 0x102 [0x1204] 1] \<and>
   status (snd (io_handle_status example_protocol 0x4 reset_state)) = 0"
proof -
  have h1: "status reset_state AND PX4IO_P_STATUS_FLAGS_SAFETY_OFF example_protocol \<noteq> 0"
    by (simp add: reset_state_def px4io_new_def example_protocol_def)
  have h2: "(0x4 :: uint16_t) AND PX4IO_P_STATUS_FLAGS_SAFETY_OFF example_protocol = 0"
    by (simp add: example_protocol_def)
  have h3: "(0x4 :: uint16_t) AND PX4IO_P_STATUS_FLAGS_ARM_SYNC example_protocol = 0"
    by (simp add: example_protocol_def)
  have h4: "2 \<le> max_transfer reset_state"
    by (simp add: reset_state_def px4io_new_def)
  show ?thesis
    using h1 h2 h3 h4 reset_detection [OF h1 h2 h3]
    by (simp add: reset_state_def px4io_new_def example_protocol_def good_device_def
        reg_address_def io_reg_modify_link Let_def)
qed

section \<open>Properties of the control surface\<close>

text \<open>
  C8, as stated, fails. With safety not off, a reboot-to-bootloader request whose argument
  is 0 returns \<^verbatim>\<open>OK\<close>, and the one call it makes on the interface writes 0 to the reboot
  register: the reboot magic is not written.
\<close>

theorem reboot_bootloader_counterexample:
  "system_status rmw_state AND PX4IO_P_STATUS_FLAGS_SAFETY_OFF example_protocol = 0 \<and>
   fst (ioctl example_protocol PX4IO_REBOOT_BOOTLOADER 0 rmw_state) = OK \<and>
   trace (snd (ioctl example_protocol PX4IO_REBOOT_BOOTLOADER 0 rmw_state)) =
     [LinkWrite 0x320A [0] 1] \<and>
   PX4IO_REBOOT_BL_MAGIC example_protocol \<noteq> 0 \<and>
   LinkWrite 0x320A [PX4IO_REBOOT_BL_MAGIC example_protocol] 1
     \<notin> set (trace (snd (ioctl example_protocol PX4IO_REBOOT_BOOTLOADER 0 rmw_state)))"
  by (simp add: system_status_def rmw_state_def px4io_new_def example_protocol_def
      io_reg_set1_link px4_usleep_def good_device_def reg_address_def)

text \<open>
  C8, amended. A reboot-to-bootloader request while the cached status has safety-off set
  returns \<^verbatim>\<open>-EINVAL\<close> and leaves the driver, and with it the trace, untouched: nothing is
  written. When safety is not off the request sleeps a microsecond, returns \<^verbatim>\<open>OK\<close> whatever
  its argument and whatever the write returned, and (the transfer limit admitting one
  register) makes exactly one call on the interface: a write of the request's argument,
  cut to 16 bits, to the reboot register. So the reboot magic is what is written exactly
  when the low 16 bits of the argument are the magic.
\<close>

theorem reboot_bootloader_gate:
  "(system_status s AND PX4IO_P_STATUS_FLAGS_SAFETY_OFF P \<noteq> 0 \<longrightarrow>
      ioctl P PX4IO_REBOOT_BOOTLOADER arg s = (- EINVAL, s)) \<and>
   (system_status s AND PX4IO_P_STATUS_FLAGS_SAFETY_OFF P = 0 \<longrightarrow>
      fst (ioctl P PX4IO_REBOOT_BOOTLOADER arg s) = OK \<and>
      snd (ioctl P PX4IO_REBOOT_BOOTLOADER arg s) =
        s\<lparr>trace := trace s @
             (if 2 \<le> max_transfer s
              then [LinkWrite (reg_address (PX4IO_PAGE_SETUP P) (PX4IO_P_SETUP_REBOOT_BL P))
                      [ucast arg] 1]
              else []),
          events := events s @ [Usleep 1]\<rparr> \<and>
      ((trace (snd (ioctl P PX4IO_REBOOT_BOOTLOADER arg s)) =
          trace s @ [LinkWrite (reg_address (PX4IO_PAGE_SETUP P) (PX4IO_P_SETUP_REBOOT_BL P))
                       [PX4IO_REBOOT_BL_MAGIC P] 1]) =
       (2 \<le> max_transfer s \<and> ucast arg = PX4IO_REBOOT_BL_MAGIC P)))"
  by (auto simp add: io_reg_set1_link px4_usleep_def Let_def not_less [symmetric]
      split: prod.splits)

theorem reboot_bootloader_gate_witness:
  "system_status safety_off_state AND PX4IO_P_STATUS_FLAGS_SAFETY_OFF example_protocol \<noteq> 0 \<and>
   ioctl example_protocol PX4IO_REBOOT_BOOTLOADER 14662 safety_off_state = (- EINVAL, safety_off_state) \<and>
   system_status rmw_state AND PX4IO_P_STATUS_FLAGS_SAFETY_OFF example_protocol = 0 \<and>
   2 \<le> max_transfer rmw_state \<and>
   fst (ioctl example_protocol PX4IO_REBOOT_BOOTLOADER 14662 rmw_state) = OK \<and>
   trace (snd (ioctl example_protocol PX4IO_REBOOT_BOOTLOADER 14662 rmw_state)) =
     [LinkWrite 0x320A [14662] 1] \<and>
   events (snd (ioctl example_protocol PX4IO_REBOOT_BOOTLOADER 14662 rmw_state)) = [Usleep 1] \<and>
   fst (ioctl example_protocol PX4IO_REBOOT_BOOTLOADER 7 rmw_state) = OK \<and>
   trace (snd (ioctl example_protocol PX4IO_REBOOT_BOOTLOADER 7 rmw_state)) =
     [LinkWrite 0x320A [7] 1]"
  using reboot_bootloader_gate [where P = example_protocol and s = safety_off_state and arg = 14662]
    reboot_bootloader_gate [where P = example_protocol and s = rmw_state and arg = 14662]
    reboot_bootloader_gate [where P = example_protocol and s = rmw_state and arg = 7]
  by (simp add: system_status_def safety_off_state_def rmw_state_def px4io_new_def
      example_protocol_def reg_address_def)

section \<open>Properties of the arming command\<close>

lemma io_set_arming_state_unfold:
  "io_set_arming_state P copy s =
     (if (last_written_arming_s s, last_written_arming_c s) \<noteq>
           (fst (arming_pair P copy (lockdown_override s)),
            fst (snd (arming_pair P copy (lockdown_override s))))
      then io_reg_modify (PX4IO_PAGE_SETUP P) (PX4IO_P_SETUP_ARMING P)
             (fst (snd (arming_pair P copy (lockdown_override s))))
             (fst (arming_pair P copy (lockdown_override s)))
             (s\<lparr>lockdown_override := snd (snd (arming_pair P copy (lockdown_override s))),
                last_written_arming_s := fst (arming_pair P copy (lockdown_override s)),
                last_written_arming_c := fst (snd (arming_pair P copy (lockdown_override s)))\<rparr>)
      else (0, s\<lparr>lockdown_override := snd (snd (arming_pair P copy (lockdown_override s)))\<rparr>))"
  by (auto simp add: io_set_arming_state_def Let_def case_prod_beta)

lemma io_reg_modify_fields [simp]:
  "interface (snd (io_reg_modify page offset clearbits setbits s)) = interface s"
  "max_transfer (snd (io_reg_modify page offset clearbits setbits s)) = max_transfer s"
  "status (snd (io_reg_modify page offset clearbits setbits s)) = status s"
  "last_written_arming_s (snd (io_reg_modify page offset clearbits setbits s)) = last_written_arming_s s"
  "last_written_arming_c (snd (io_reg_modify page offset clearbits setbits s)) = last_written_arming_c s"
  "lockdown_override (snd (io_reg_modify page offset clearbits setbits s)) = lockdown_override s"
  by (simp_all add: io_reg_modify_link Let_def)

lemma io_set_arming_state_cache:
  "last_written_arming_s (snd (io_set_arming_state P copy s)) =
     fst (arming_pair P copy (lockdown_override s)) \<and>
   last_written_arming_c (snd (io_set_arming_state P copy s)) =
     fst (snd (arming_pair P copy (lockdown_override s))) \<and>
   lockdown_override (snd (io_set_arming_state P copy s)) =
     snd (snd (arming_pair P copy (lockdown_override s))) \<and>
   max_transfer (snd (io_set_arming_state P copy s)) = max_transfer s"
  by (auto simp add: io_set_arming_state_unfold)

lemma flaky_first:
  "io_set_arming_state example_protocol (Some armed_msg) flaky_state = (OK, flaky_s1)"
  by (simp add: flaky_s1_def flaky_state_def io_set_arming_state_unfold arming_pair_def
      armed_msg_def example_protocol_def px4io_new_def io_reg_modify_link flaky_device_def
      reg_address_def Let_def)

lemma flaky_second:
  "io_set_arming_state example_protocol (Some standby_msg) flaky_s1 = (- 1, flaky_s2)"
  by (simp add: flaky_s2_def flaky_s1_def flaky_state_def io_set_arming_state_unfold
      arming_pair_def standby_msg_def example_protocol_def px4io_new_def io_reg_modify_link
      flaky_device_def reg_address_def Let_def)

lemma flaky_third:
  "io_set_arming_state example_protocol (Some armed_msg) flaky_s2 =
     (OK, flaky_s2\<lparr>trace := trace flaky_s2 @ [LinkRead 0x3201 1, LinkWrite 0x3201 [0x3] 1],
                   last_written_arming_s := 0x3, last_written_arming_c := 0x900\<rparr>)"
  by (simp add: flaky_s2_def flaky_s1_def flaky_state_def io_set_arming_state_unfold
      arming_pair_def armed_msg_def example_protocol_def px4io_new_def io_reg_modify_link
      flaky_device_def reg_address_def Let_def)

text \<open>
  C5, as stated, fails: a register-modify is transmitted for a pair that does not differ
  from the last pair actually written. The first invocation computes the pair
  (set 0x3, clear 0x900) and writes it. The second computes another pair, (0x1, 0x902);
  its register-modify fails at the read, so nothing is written, and the trace holds the
  one write of 0x3 as before. The third invocation computes (0x3, 0x900) again, the last
  pair actually written, and transmits the register-modify again: a read and a second
  write of 0x3.
\<close>

theorem arming_last_written_counterexample:
  "fst (arming_pair example_protocol (Some armed_msg) (lockdown_override flaky_state)) = 0x3 \<and>
   fst (snd (arming_pair example_protocol (Some armed_msg) (lockdown_override flaky_state))) = 0x900 \<and>
   io_set_arming_state example_protocol (Some armed_msg) flaky_state = (OK, flaky_s1) \<and>
   writes_of (trace flaky_s1) = [LinkWrite 0x3201 [0x3] 1] \<and>
   fst (arming_pair example_protocol (Some standby_msg) (lockdown_override flaky_s1)) = 0x1 \<and>
   fst (snd (arming_pair example_protocol (Some standby_msg) (lockdown_override flaky_s1))) = 0x902 \<and>
   io_set_arming_state example_protocol (Some standby_msg) flaky_s1 = (- 1, flaky_s2) \<and>
   writes_of (trace flaky_s2) = [LinkWrite 0x3201 [0x3] 1] \<and>
   fst (arming_pair example_protocol (Some armed_msg) (lockdown_override flaky_s2)) = 0x3 \<and>
   fst (snd (arming_pair example_protocol (Some armed_msg) (lockdown_override flaky_s2))) = 0x900 \<and>
   fst (io_set_arming_state example_protocol (Some armed_msg) flaky_s2) = OK \<and>
   trace (snd (io_set_arming_state example_protocol (Some armed_msg) flaky_s2)) =
     trace flaky_s2 @ [LinkRead 0x3201 1, LinkWrite 0x3201 [0x3] 1]"
  unfolding flaky_first flaky_second flaky_third
  by (simp add: flaky_s2_def flaky_s1_def flaky_state_def px4io_new_def arming_pair_def
      armed_msg_def standby_msg_def example_protocol_def writes_of_def)

text \<open>
  C5, amended. \<^verbatim>\<open>io_set_arming_state\<close> compares the pair it computes with the pair in
  \<^verbatim>\<open>_last_written_arming_s\<close> and \<^verbatim>\<open>_last_written_arming_c\<close>: the pair it handed to
  \<^verbatim>\<open>io_reg_modify\<close> last, whether or not that call wrote anything, and (0, 0) before
  the first such call. When the two are equal
  it returns 0 and makes no call on the interface. When they differ it records the pair
  and returns what one \<^verbatim>\<open>io_reg_modify\<close> of the arming register with the pair's clear and
  set bits returns; with a transfer limit of at least one register the interface sees
  exactly the calls of that one register-modify: a read of the arming register followed,
  if the read succeeded, by a write of (value read AND NOT clear) OR set. A second
  invocation that computes the same pair then returns 0 and makes no call on the
  interface. So two consecutive invocations that compute the same pair transmit exactly
  one register-modify when the pair differs from the recorded one, and none otherwise.
\<close>

theorem arming_write_only_on_change:
  assumes "2 \<le> max_transfer s"
    and "fst (arming_pair P c1 (lockdown_override s)) = setbits"
    and "fst (snd (arming_pair P c1 (lockdown_override s))) = clearbits"
    and "fst (arming_pair P c2 (lockdown_override (snd (io_set_arming_state P c1 s)))) = setbits"
    and "fst (snd (arming_pair P c2 (lockdown_override (snd (io_set_arming_state P c1 s))))) = clearbits"
  shows "((setbits, clearbits) = (last_written_arming_s s, last_written_arming_c s) \<longrightarrow>
            fst (io_set_arming_state P c1 s) = 0 \<and>
            trace (snd (io_set_arming_state P c1 s)) = trace s) \<and>
         ((setbits, clearbits) \<noteq> (last_written_arming_s s, last_written_arming_c s) \<longrightarrow>
            fst (io_set_arming_state P c1 s) =
              fst (io_reg_modify (PX4IO_PAGE_SETUP P) (PX4IO_P_SETUP_ARMING P) clearbits setbits s) \<and>
            trace (snd (io_set_arming_state P c1 s)) =
              trace (snd (io_reg_modify (PX4IO_PAGE_SETUP P) (PX4IO_P_SETUP_ARMING P)
                            clearbits setbits s)) \<and>
            trace (snd (io_set_arming_state P c1 s)) =
              trace s @ LinkRead (reg_address (PX4IO_PAGE_SETUP P) (PX4IO_P_SETUP_ARMING P)) 1 #
                (if fst (dev_read (interface s) (trace s)
                          (reg_address (PX4IO_PAGE_SETUP P) (PX4IO_P_SETUP_ARMING P)) 1) = 1
                 then [LinkWrite (reg_address (PX4IO_PAGE_SETUP P) (PX4IO_P_SETUP_ARMING P))
                         [(snd (dev_read (interface s) (trace s)
                                 (reg_address (PX4IO_PAGE_SETUP P) (PX4IO_P_SETUP_ARMING P)) 1) 0
                             AND NOT clearbits) OR setbits] 1]
                 else [])) \<and>
         last_written_arming_s (snd (io_set_arming_state P c1 s)) = setbits \<and>
         last_written_arming_c (snd (io_set_arming_state P c1 s)) = clearbits \<and>
         fst (io_set_arming_state P c2 (snd (io_set_arming_state P c1 s))) = 0 \<and>
         trace (snd (io_set_arming_state P c2 (snd (io_set_arming_state P c1 s)))) =
           trace (snd (io_set_arming_state P c1 s))"
proof -
  let ?s1 = "snd (io_set_arming_state P c1 s)"
  let ?s' = "s\<lparr>lockdown_override := snd (snd (arming_pair P c1 (lockdown_override s))),
               last_written_arming_s := setbits, last_written_arming_c := clearbits\<rparr>"
  have cache: "last_written_arming_s ?s1 = setbits" "last_written_arming_c ?s1 = clearbits"
    using assms(2,3) by (simp_all add: io_set_arming_state_cache)
  have second: "io_set_arming_state P c2 ?s1 =
      (0, ?s1\<lparr>lockdown_override := snd (snd (arming_pair P c2 (lockdown_override ?s1)))\<rparr>)"
    using cache assms(4,5) by (simp add: io_set_arming_state_unfold [of P c2])
  have same: "(setbits, clearbits) = (last_written_arming_s s, last_written_arming_c s) \<Longrightarrow>
      io_set_arming_state P c1 s =
        (0, s\<lparr>lockdown_override := snd (snd (arming_pair P c1 (lockdown_override s)))\<rparr>)"
    using assms(2,3) by (auto simp add: io_set_arming_state_unfold [of P c1])
  have new: "(setbits, clearbits) \<noteq> (last_written_arming_s s, last_written_arming_c s) \<Longrightarrow>
      io_set_arming_state P c1 s =
        io_reg_modify (PX4IO_PAGE_SETUP P) (PX4IO_P_SETUP_ARMING P) clearbits setbits ?s'"
    using assms(2,3) by (auto simp add: io_set_arming_state_unfold [of P c1])
  have ret: "fst (io_reg_modify (PX4IO_PAGE_SETUP P) (PX4IO_P_SETUP_ARMING P) clearbits setbits ?s') =
      fst (io_reg_modify (PX4IO_PAGE_SETUP P) (PX4IO_P_SETUP_ARMING P) clearbits setbits s)"
    by (simp add: io_reg_modify_link Let_def)
  have tr: "trace (snd (io_reg_modify (PX4IO_PAGE_SETUP P) (PX4IO_P_SETUP_ARMING P) clearbits setbits ?s')) =
      trace (snd (io_reg_modify (PX4IO_PAGE_SETUP P) (PX4IO_P_SETUP_ARMING P) clearbits setbits s))"
    by (simp add: io_reg_modify_link Let_def)
  have link: "trace (snd (io_reg_modify (PX4IO_PAGE_SETUP P) (PX4IO_P_SETUP_ARMING P) clearbits setbits s)) =
      trace s @ LinkRead (reg_address (PX4IO_PAGE_SETUP P) (PX4IO_P_SETUP_ARMING P)) 1 #
        (if fst (dev_read (interface s) (trace s)
                  (reg_address (PX4IO_PAGE_SETUP P) (PX4IO_P_SETUP_ARMING P)) 1) = 1
         then [LinkWrite (reg_address (PX4IO_PAGE_SETUP P) (PX4IO_P_SETUP_ARMING P))
                 [(snd (dev_read (interface s) (trace s)
                         (reg_address (PX4IO_PAGE_SETUP P) (PX4IO_P_SETUP_ARMING P)) 1) 0
                     AND NOT clearbits) OR setbits] 1]
         else [])"
    using assms(1) by (rule io_reg_modify_trace)
  show ?thesis
  proof (intro conjI impI)
    assume eq: "(setbits, clearbits) = (last_written_arming_s s, last_written_arming_c s)"
    show "fst (io_set_arming_state P c1 s) = 0"
      by (simp add: same [OF eq])
    show "trace (snd (io_set_arming_state P c1 s)) = trace s"
      by (simp add: same [OF eq])
  next
    assume ne: "(setbits, clearbits) \<noteq> (last_written_arming_s s, last_written_arming_c s)"
    show "fst (io_set_arming_state P c1 s) =
        fst (io_reg_modify (PX4IO_PAGE_SETUP P) (PX4IO_P_SETUP_ARMING P) clearbits setbits s)"
      using ret by (simp add: new [OF ne])
    show t1: "trace (snd (io_set_arming_state P c1 s)) =
        trace (snd (io_reg_modify (PX4IO_PAGE_SETUP P) (PX4IO_P_SETUP_ARMING P) clearbits setbits s))"
      using tr by (simp add: new [OF ne])
    show "trace (snd (io_set_arming_state P c1 s)) =
        trace s @ LinkRead (reg_address (PX4IO_PAGE_SETUP P) (PX4IO_P_SETUP_ARMING P)) 1 #
          (if fst (dev_read (interface s) (trace s)
                    (reg_address (PX4IO_PAGE_SETUP P) (PX4IO_P_SETUP_ARMING P)) 1) = 1
           then [LinkWrite (reg_address (PX4IO_PAGE_SETUP P) (PX4IO_P_SETUP_ARMING P))
                   [(snd (dev_read (interface s) (trace s)
                           (reg_address (PX4IO_PAGE_SETUP P) (PX4IO_P_SETUP_ARMING P)) 1) 0
                       AND NOT clearbits) OR setbits] 1]
           else [])"
      using t1 link by simp
  next
    show "last_written_arming_s ?s1 = setbits" "last_written_arming_c ?s1 = clearbits"
      by (rule cache)+
  next
    show "fst (io_set_arming_state P c2 ?s1) = 0"
      by (simp add: second)
    show "trace (snd (io_set_arming_state P c2 ?s1)) = trace ?s1"
      by (simp add: second)
  qed
qed

lemma fresh_state_first:
  "io_set_arming_state example_protocol (Some armed_msg) fresh_state =
     (OK, fresh_state\<lparr>trace := [LinkRead 0x3201 1, LinkWrite 0x3201 [0x3] 1],
                  last_written_arming_s := 0x3, last_written_arming_c := 0x900\<rparr>)"
  by (simp add: fresh_state_def io_set_arming_state_unfold arming_pair_def
      armed_msg_def example_protocol_def px4io_new_def io_reg_modify_link good_device_def
      reg_address_def Let_def)

lemma armed_written_state_eq:
  "armed_written_state =
     fresh_state\<lparr>trace := [LinkRead 0x3201 1, LinkWrite 0x3201 [0x3] 1],
                  last_written_arming_s := 0x3, last_written_arming_c := 0x900\<rparr>"
  by (simp add: armed_written_state_def fresh_state_first)

lemma armed_written_state_second:
  "io_set_arming_state example_protocol (Some armed_msg) armed_written_state =
     (0, armed_written_state)"
  by (simp add: armed_written_state_eq fresh_state_def io_set_arming_state_unfold arming_pair_def
      armed_msg_def example_protocol_def px4io_new_def)

theorem arming_write_only_on_change_witness:
  "2 \<le> max_transfer fresh_state \<and>
   fst (arming_pair example_protocol (Some armed_msg) (lockdown_override fresh_state)) = 0x3 \<and>
   fst (snd (arming_pair example_protocol (Some armed_msg) (lockdown_override fresh_state))) = 0x900 \<and>
   fst (arming_pair example_protocol (Some armed_msg)
     (lockdown_override (snd (io_set_arming_state example_protocol (Some armed_msg) fresh_state)))) = 0x3 \<and>
   fst (snd (arming_pair example_protocol (Some armed_msg)
     (lockdown_override (snd (io_set_arming_state example_protocol (Some armed_msg) fresh_state))))) = 0x900 \<and>
   (0x3, 0x900) \<noteq> (last_written_arming_s fresh_state, last_written_arming_c fresh_state) \<and>
   trace (snd (io_set_arming_state example_protocol (Some armed_msg) fresh_state)) =
     [LinkRead 0x3201 1, LinkWrite 0x3201 [0x3] 1] \<and>
   trace (snd (io_set_arming_state example_protocol (Some armed_msg)
      (snd (io_set_arming_state example_protocol (Some armed_msg) fresh_state)))) =
     [LinkRead 0x3201 1, LinkWrite 0x3201 [0x3] 1] \<and>
   2 \<le> max_transfer armed_written_state \<and>
   (0x3, 0x900) = (last_written_arming_s armed_written_state, last_written_arming_c armed_written_state) \<and>
   trace (snd (io_set_arming_state example_protocol (Some armed_msg)
      (snd (io_set_arming_state example_protocol (Some armed_msg) armed_written_state)))) =
     trace armed_written_state"
proof -
  have h1: "2 \<le> max_transfer fresh_state"
    by (simp add: fresh_state_def px4io_new_def)
  have h2: "fst (arming_pair example_protocol (Some armed_msg) (lockdown_override fresh_state)) = 0x3"
    and h3: "fst (snd (arming_pair example_protocol (Some armed_msg) (lockdown_override fresh_state))) = 0x900"
    by (simp_all add: arming_pair_def armed_msg_def example_protocol_def fresh_state_def px4io_new_def)
  have h4: "fst (arming_pair example_protocol (Some armed_msg)
     (lockdown_override (snd (io_set_arming_state example_protocol (Some armed_msg) fresh_state)))) = 0x3"
    and h5: "fst (snd (arming_pair example_protocol (Some armed_msg)
     (lockdown_override (snd (io_set_arming_state example_protocol (Some armed_msg) fresh_state))))) = 0x900"
    unfolding fresh_state_first
    by (simp_all add: arming_pair_def armed_msg_def example_protocol_def fresh_state_def px4io_new_def)
  have n: "(0x3, 0x900) \<noteq> (last_written_arming_s fresh_state, last_written_arming_c fresh_state)"
    by (simp add: fresh_state_def px4io_new_def)
  have g1: "2 \<le> max_transfer armed_written_state"
    by (simp add: armed_written_state_eq fresh_state_def px4io_new_def)
  have g2: "fst (arming_pair example_protocol (Some armed_msg) (lockdown_override armed_written_state)) = 0x3"
    and g3: "fst (snd (arming_pair example_protocol (Some armed_msg) (lockdown_override armed_written_state))) = 0x900"
    by (simp_all add: arming_pair_def armed_msg_def example_protocol_def armed_written_state_eq
        fresh_state_def px4io_new_def)
  have g4: "fst (arming_pair example_protocol (Some armed_msg)
     (lockdown_override (snd (io_set_arming_state example_protocol (Some armed_msg) armed_written_state)))) = 0x3"
    and g5: "fst (snd (arming_pair example_protocol (Some armed_msg)
     (lockdown_override (snd (io_set_arming_state example_protocol (Some armed_msg) armed_written_state))))) = 0x900"
    unfolding armed_written_state_second using g2 g3 by simp_all
  have e: "(0x3, 0x900) = (last_written_arming_s armed_written_state, last_written_arming_c armed_written_state)"
    by (simp add: armed_written_state_eq)
  have rd: "dev_read (interface fresh_state) (trace fresh_state) 0x3201 1 = (1, \<lambda>i. 0)"
    and tr0: "trace fresh_state = []"
    by (simp_all add: fresh_state_def px4io_new_def good_device_def)
  have t1: "trace (snd (io_set_arming_state example_protocol (Some armed_msg) fresh_state)) =
      [LinkRead 0x3201 1, LinkWrite 0x3201 [0x3] 1]"
    using arming_write_only_on_change [OF h1 h2 h3 h4 h5, THEN conjunct2, THEN conjunct1,
        THEN mp, OF n, THEN conjunct2, THEN conjunct2] rd
    by (simp add: example_protocol_fields reg_address_def tr0)
  have t2: "trace (snd (io_set_arming_state example_protocol (Some armed_msg)
      (snd (io_set_arming_state example_protocol (Some armed_msg) fresh_state)))) =
      [LinkRead 0x3201 1, LinkWrite 0x3201 [0x3] 1]"
    using arming_write_only_on_change [OF h1 h2 h3 h4 h5] t1 by simp
  have t3: "trace (snd (io_set_arming_state example_protocol (Some armed_msg)
      (snd (io_set_arming_state example_protocol (Some armed_msg) armed_written_state)))) =
      trace armed_written_state"
    using arming_write_only_on_change [OF g1 g2 g3 g4 g5] e by simp
  show ?thesis
    using h1 h2 h3 h4 h5 n t1 t2 g1 e t3 by simp
qed

text \<open>
  C9. \<^verbatim>\<open>io_set_arming_state\<close> stores the pair as last written before it calls
  \<^verbatim>\<open>io_reg_modify\<close>. When the pair is new and the register-modify fails, the pair is
  recorded all the same, and the next invocation that computes the same pair returns 0
  without any call on the interface: the failed write is not retried.
\<close>

theorem failed_arming_write_not_retried:
  assumes "fst (arming_pair P c1 (lockdown_override s)) = setbits"
    and "fst (snd (arming_pair P c1 (lockdown_override s))) = clearbits"
    and "(setbits, clearbits) \<noteq> (last_written_arming_s s, last_written_arming_c s)"
    and "fst (io_set_arming_state P c1 s) \<noteq> OK"
    and "fst (arming_pair P c2 (lockdown_override (snd (io_set_arming_state P c1 s)))) = setbits"
    and "fst (snd (arming_pair P c2 (lockdown_override (snd (io_set_arming_state P c1 s))))) = clearbits"
  shows "last_written_arming_s (snd (io_set_arming_state P c1 s)) = setbits \<and>
         last_written_arming_c (snd (io_set_arming_state P c1 s)) = clearbits \<and>
         fst (io_set_arming_state P c2 (snd (io_set_arming_state P c1 s))) = 0 \<and>
         trace (snd (io_set_arming_state P c2 (snd (io_set_arming_state P c1 s)))) =
           trace (snd (io_set_arming_state P c1 s))"
proof -
  let ?s1 = "snd (io_set_arming_state P c1 s)"
  have cache: "last_written_arming_s ?s1 = setbits" "last_written_arming_c ?s1 = clearbits"
    using assms(1,2) by (simp_all add: io_set_arming_state_cache)
  have second: "io_set_arming_state P c2 ?s1 =
      (0, ?s1\<lparr>lockdown_override := snd (snd (arming_pair P c2 (lockdown_override ?s1)))\<rparr>)"
    using cache assms(5,6) by (simp add: io_set_arming_state_unfold [of P c2])
  show ?thesis
    using cache by (simp add: second)
qed

theorem failed_arming_write_not_retried_witness:
  "fst (arming_pair example_protocol (Some armed_msg) (lockdown_override dead_state)) = 0x3 \<and>
   fst (snd (arming_pair example_protocol (Some armed_msg) (lockdown_override dead_state))) = 0x900 \<and>
   (0x3, 0x900) \<noteq> (last_written_arming_s dead_state, last_written_arming_c dead_state) \<and>
   fst (io_set_arming_state example_protocol (Some armed_msg) dead_state) = - 1 \<and>
   writes_of (trace (snd (io_set_arming_state example_protocol (Some armed_msg) dead_state))) = [] \<and>
   last_written_arming_s (snd (io_set_arming_state example_protocol (Some armed_msg) dead_state)) = 0x3 \<and>
   last_written_arming_c (snd (io_set_arming_state example_protocol (Some armed_msg) dead_state)) = 0x900 \<and>
   fst (io_set_arming_state example_protocol (Some armed_msg)
         (snd (io_set_arming_state example_protocol (Some armed_msg) dead_state))) = 0 \<and>
   trace (snd (io_set_arming_state example_protocol (Some armed_msg)
         (snd (io_set_arming_state example_protocol (Some armed_msg) dead_state)))) =
     [LinkRead 0x3201 1]"
proof -
  have s1: "io_set_arming_state example_protocol (Some armed_msg) dead_state =
      (- 1, dead_state\<lparr>trace := [LinkRead 0x3201 1],
                        last_written_arming_s := 0x3, last_written_arming_c := 0x900\<rparr>)"
    by (simp add: dead_state_def io_set_arming_state_unfold arming_pair_def
      armed_msg_def example_protocol_def px4io_new_def io_reg_modify_link dead_device_def
      reg_address_def Let_def)
  have h1: "fst (arming_pair example_protocol (Some armed_msg) (lockdown_override dead_state)) = 0x3"
    and h2: "fst (snd (arming_pair example_protocol (Some armed_msg) (lockdown_override dead_state))) = 0x900"
    by (simp_all add: arming_pair_def armed_msg_def example_protocol_def dead_state_def px4io_new_def)
  have h3: "(0x3, 0x900) \<noteq> (last_written_arming_s dead_state, last_written_arming_c dead_state)"
    by (simp add: dead_state_def px4io_new_def)
  have h4: "fst (io_set_arming_state example_protocol (Some armed_msg) dead_state) \<noteq> OK"
    by (simp add: s1)
  have h5: "fst (arming_pair example_protocol (Some armed_msg)
      (lockdown_override (snd (io_set_arming_state example_protocol (Some armed_msg) dead_state)))) = 0x3"
    and h6: "fst (snd (arming_pair example_protocol (Some armed_msg)
      (lockdown_override (snd (io_set_arming_state example_protocol (Some armed_msg) dead_state))))) = 0x900"
    unfolding s1
    by (simp_all add: arming_pair_def armed_msg_def example_protocol_def dead_state_def px4io_new_def)
  show ?thesis
    using h1 h2 h3 failed_arming_write_not_retried [OF h1 h2 h3 h4 h5 h6]
    unfolding s1 by (simp add: writes_of_def)
qed


section \<open>Properties of the output cache\<close>

lemma io_reg_set1_full:
  assumes "2 \<le> max_transfer s"
  shows "snd (io_reg_set1 page offset v s) =
           s\<lparr>trace := trace s @ [LinkWrite (reg_address page offset) [v] 1]\<rparr>"
  using assms by (simp add: io_reg_set1_link not_less [symmetric])

lemma output_channel_unchanged:
  assumes "prev_outputs s ! i = outputs ! i"
  shows "output_channel P False outputs i s = s"
  using assms by (simp add: output_channel_def)

lemma fold_output_channel_unchanged:
  assumes "\<forall>i<n. prev_outputs s ! i = outputs ! i" and "k \<le> n"
  shows "fold (output_channel P False outputs) [0..<k] s = s"
  using assms(2)
proof (induction k)
  case 0
  show ?case by simp
next
  case (Suc k)
  then have "fold (output_channel P False outputs) [0..<k] s = s" by simp
  moreover have "prev_outputs s ! k = outputs ! k"
    using assms(1) Suc.prems by simp
  ultimately show ?case
    by (simp add: output_channel_unchanged)
qed

lemma output_channel_full:
  assumes "2 \<le> max_transfer s" and "prev_outputs s ! i = outputs ! i"
  shows "output_channel P True outputs i s =
           s\<lparr>trace := trace s @
                [LinkWrite (reg_address (PX4IO_PAGE_DIRECT_PWM P) (of_nat i)) [outputs ! i] 1]\<rparr>"
proof -
  have "(prev_outputs s)[i := outputs ! i] = prev_outputs s"
    using assms(2) by (metis list_update_id)
  then show ?thesis
    using assms(1) by (simp add: output_channel_def case_prod_beta io_reg_set1_full)
qed

lemma fold_output_channel_full:
  assumes "2 \<le> max_transfer s" and "\<forall>i<n. prev_outputs s ! i = outputs ! i" and "k \<le> n"
  shows "fold (output_channel P True outputs) [0..<k] s =
           s\<lparr>trace := trace s @
                map (\<lambda>i. LinkWrite (reg_address (PX4IO_PAGE_DIRECT_PWM P) (of_nat i)) [outputs ! i] 1)
                  [0..<k]\<rparr>"
  using assms(3)
proof (induction k)
  case 0
  show ?case by simp
next
  case (Suc k)
  let ?w = "\<lambda>i. LinkWrite (reg_address (PX4IO_PAGE_DIRECT_PWM P) (of_nat i)) [outputs ! i] 1"
  let ?sk = "s\<lparr>trace := trace s @ map ?w [0..<k]\<rparr>"
  have ih: "fold (output_channel P True outputs) [0..<k] s = ?sk"
    using Suc by simp
  have "prev_outputs ?sk ! k = outputs ! k"
    using assms(2) Suc.prems by simp
  moreover have "2 \<le> max_transfer ?sk"
    using assms(1) by simp
  ultimately have "output_channel P True outputs k ?sk = ?sk\<lparr>trace := trace ?sk @ [?w k]\<rparr>"
    by (rule output_channel_full [rotated])
  then show ?case
    by (simp add: ih)
qed

text \<open>
  C4. Let the first \<^verbatim>\<open>num_outputs\<close> channel values equal the output cache, and the transfer
  limit admit one register, as it does after the constructor and in every driver that
  passed \<^verbatim>\<open>init\<close> (\<open>init_ok_max_transfer\<close> below). If less than
  500 ms have elapsed since the last full refresh, \<^verbatim>\<open>updateOutputs\<close> only reads the clock:
  no call is made on the interface. If 500 ms or more have elapsed, it writes every one of
  the \<^verbatim>\<open>num_outputs\<close> channels, in order, in that same call, and sets the full-refresh
  timestamp to the time read after the writes.
\<close>

theorem full_refresh_rule:
  assumes "unat num_outputs \<le> length outputs"
    and "unat num_outputs \<le> length (prev_outputs s)"
    and "\<forall>i<unat num_outputs. prev_outputs s ! i = outputs ! i"
    and "2 \<le> max_transfer s"
  shows "(clock s (clock_reads s) - last_full_output_update s < 500000 \<longrightarrow>
            updateOutputs P stop_motors outputs num_outputs groups s =
              Some (True, s\<lparr>clock_reads := Suc (clock_reads s)\<rparr>)) \<and>
         (500000 \<le> clock s (clock_reads s) - last_full_output_update s \<longrightarrow>
            updateOutputs P stop_motors outputs num_outputs groups s =
              Some (True,
                s\<lparr>trace := trace s @
                     map (\<lambda>i. LinkWrite (reg_address (PX4IO_PAGE_DIRECT_PWM P) (of_nat i))
                                [outputs ! i] 1) [0..<unat num_outputs],
                  clock_reads := Suc (Suc (clock_reads s)),
                  last_full_output_update := clock s (Suc (clock_reads s))\<rparr>))"
proof -
  let ?s1 = "s\<lparr>clock_reads := Suc (clock_reads s)\<rparr>"
  have unchanged: "fold (output_channel P False outputs) [0..<unat num_outputs] ?s1 = ?s1"
    using assms(3) by (intro fold_output_channel_unchanged [where n = "unat num_outputs"]) simp_all
  have full: "fold (output_channel P True outputs) [0..<unat num_outputs] ?s1 =
      ?s1\<lparr>trace := trace ?s1 @
             map (\<lambda>i. LinkWrite (reg_address (PX4IO_PAGE_DIRECT_PWM P) (of_nat i)) [outputs ! i] 1)
               [0..<unat num_outputs]\<rparr>"
    using assms(3,4) by (intro fold_output_channel_full [where n = "unat num_outputs"]) simp_all
  show ?thesis
    using assms(1,2)
    by (simp add: updateOutputs_def hrt_elapsed_time_def hrt_absolute_time_def Let_def
        unchanged full not_le [symmetric])
qed

theorem full_refresh_rule_witness:
  "unat (4 :: uint32_t) \<le> length [1500, 1500, 900, 2000 :: uint16_t] \<and>
   unat (4 :: uint32_t) \<le> length (prev_outputs (outputs_state 499999)) \<and>
   2 \<le> max_transfer (outputs_state 499999) \<and>
   clock (outputs_state 499999) (clock_reads (outputs_state 499999))
     - last_full_output_update (outputs_state 499999) < 500000 \<and>
   updateOutputs example_protocol False [1500, 1500, 900, 2000] 4 1 (outputs_state 499999) =
     Some (True, (outputs_state 499999)\<lparr>clock_reads := 1\<rparr>) \<and>
   500000 \<le> clock (outputs_state 500000) (clock_reads (outputs_state 500000))
     - last_full_output_update (outputs_state 500000) \<and>
   updateOutputs example_protocol False [1500, 1500, 900, 2000] 4 1 (outputs_state 500000) =
     Some (True, (outputs_state 500000)
       \<lparr>trace := [LinkWrite 0x3600 [1500] 1, LinkWrite 0x3601 [1500] 1,
                  LinkWrite 0x3602 [900] 1, LinkWrite 0x3603 [2000] 1],
        clock_reads := 2, last_full_output_update := 500001\<rparr>)"
proof -
  have h1: "unat (4 :: uint32_t) \<le> length [1500, 1500, 900, 2000 :: uint16_t]"
    by simp
  have h2: "unat (4 :: uint32_t) \<le> length (prev_outputs (outputs_state t))" for t
    by (simp add: outputs_state_def px4io_new_def)
  have h3: "\<forall>i<unat (4 :: uint32_t).
      prev_outputs (outputs_state t) ! i = [1500, 1500, 900, 2000 :: uint16_t] ! i" for t
    by (simp add: outputs_state_def px4io_new_def)
  have h4: "2 \<le> max_transfer (outputs_state t)" for t
    by (simp add: outputs_state_def px4io_new_def)
  have upt: "[0..<4] = [0, 1, 2, 3 :: nat]"
    by (simp add: upt_rec)
  show ?thesis
    using h1 h2 [of 499999] h4 [of 499999]
      full_refresh_rule [OF h1 h2 h3 h4, of 499999 example_protocol False 1]
      full_refresh_rule [OF h1 h2 h3 h4, of 500000 example_protocol False 1]
    by (simp add: outputs_state_def px4io_new_def step_clock_def example_protocol_def
        reg_address_def upt)
qed

section \<open>Properties of the start-up sequence\<close>

lemma reboot_into_bootloader_trace:
  "trace (reboot_into_bootloader P s) =
     (if max_transfer s < 2 then trace s
      else trace s @
        [LinkWrite (reg_address (PX4IO_PAGE_SETUP P) (PX4IO_P_SETUP_FORCE_SAFETY_ON P))
           [PX4IO_FORCE_SAFETY_MAGIC P] 1,
         LinkWrite (reg_address (PX4IO_PAGE_SETUP P) (PX4IO_P_SETUP_REBOOT_BL P))
           [PX4IO_REBOOT_BL_MAGIC P] 1])"
  by (simp add: reboot_into_bootloader_def io_reg_set1_link px4_warn_def mavlink_log_def)

lemma io_reg_get1_link:
  "io_reg_get1 page offset s =
     (if max_transfer s < 2 then (io_reg_get_error, s)
      else (if fst (dev_read (interface s) (trace s) (reg_address page offset) 1) \<noteq> 1
            then io_reg_get_error
            else ucast (snd (dev_read (interface s) (trace s) (reg_address page offset) 1) 0),
            s\<lparr>trace := trace s @ [LinkRead (reg_address page offset) 1]\<rparr>))"
  by (simp add: io_reg_get1_def io_reg_get_single_link)

text \<open>
  C7 holds when the transfer limit read from IO, less 2, is at least 2: the two magic
  values are written in order (\<open>reboot_into_bootloader_trace\<close>) and \<^verbatim>\<open>init\<close> returns -1.
  It fails when the adjusted limit is 0 or 1. Here IO reports a transfer limit of 3, so
  \<^verbatim>\<open>_max_transfer\<close> is 1: the configuration is out of range and \<^verbatim>\<open>init\<close> returns -1, but
  both \<^verbatim>\<open>io_reg_set\<close> calls are turned down by their own range check, and the trace ends
  with the configuration reads: neither magic value is written.
\<close>

theorem init_short_transfer_limit_no_reboot:
  "init example_protocol quiet_env (Suc 0)
     (px4io_new (reg_device short_transfer_regs) (step_clock 0 1) 16) =
   Some (Return (- 1),
     (px4io_new (reg_device short_transfer_regs) (step_clock 0 1) 16)
       \<lparr>trace := [LinkRead 0 1, LinkRead 1 1, LinkRead 5 1, LinkRead 4 1, LinkRead 3 1],
        clock_reads := 1,
        max_transfer := 1,
        events := [Usleep 2000, Warn ''config read error'',
                   MavlinkLog ''[IO] config read fail, abort.''],
        hardware := 2, max_actuators := 8, max_controls := 8, max_rc_input := 0x80000000\<rparr>)"
  by (simp add: init_def restart_type_volatile_def px4io_new_def quiet_env_def example_protocol_def OK_def
      hrt_absolute_time_def px4_usleep_def io_reg_get1_link reg_device_def reg_address_def
      short_transfer_regs_def io_reg_get_error_def read_config_def config_out_of_range_def
      reboot_into_bootloader_def io_reg_set1_link px4_warn_def mavlink_log_def Let_def)


lemma io_reg_get_link:
  "io_reg_get page offset values num_values s =
     (if num_values > max_transfer s div 2 then (- EINVAL, values, s)
      else (if fst (dev_read (interface s) (trace s) (reg_address page offset) num_values)
                 \<noteq> sint num_values then - 1 else OK,
            map (snd (dev_read (interface s) (trace s) (reg_address page offset) num_values))
              [0..<length values],
            s\<lparr>trace := trace s @ [LinkRead (reg_address page offset) num_values]\<rparr>))"
  by (simp add: io_reg_get_def Let_def case_prod_beta)

lemmas eval_defs =
  px4io_new_def quiet_env_def example_protocol_def OK_def
  hrt_absolute_time_def hrt_elapsed_time_def px4_usleep_def io_reg_get1_link reg_device_def
  reg_address_def io_reg_get_error_def read_config_def config_out_of_range_def
  io_reg_set1_link io_reg_modify_link px4_warn_def mavlink_log_def vcmd_publish_def
  param_get_def param_set_def param_set_no_notification_def Let_def

lemma upt_small: "[0..<2] = [0, 1]" "[0..<6] = [0, 1, 2, 3, 4, 5]"
  by (simp_all add: upt_rec)

lemma inair_probe:
  assumes "cdev_init env = 0" and "0 < fuel"
  shows "init example_protocol env fuel (inair_state n) =
           init_arming example_protocol env fuel (inair_s1 n)"
proof -
  obtain m where "fuel = Suc m"
    using assms(2) by (cases fuel) simp_all
  then show ?thesis
    using assms(1)
    by (simp add: init_def restart_type_volatile_def inair_s1_def inair_state_def inair_regs_def tick_clock_def eval_defs)
qed

lemma inair_s2_eq:
  "io_reg_get 50 1 [0] 2 (inair_s1 n) = (OK, [0x12], inair_s2 n)"
  by (simp add: inair_s2_def io_reg_get_link inair_s1_def inair_state_def inair_regs_def eval_defs)

lemma inair_s3_eq:
  "recovery_entry example_protocol (inair_s2 n) = (10000500, inair_s3 n)"
  by (simp add: inair_s3_def inair_s2_def recovery_entry_def io_get_status_def io_handle_status_def
      io_reg_get_link read_each_def inair_s1_def inair_state_def inair_regs_def
      tick_clock_def upt_small eval_defs)

lemma inair_s3_fields:
  "clock (inair_s3 n) = tick_clock n" "clock_reads (inair_s3 n) = 6"
  "params (inair_s3 n) = [''SYS_RESTART_TYPE'' \<mapsto> 0, ''MAV_SYS_ID'' \<mapsto> 1, ''MAV_COMP_ID'' \<mapsto> 1]"
  by (simp_all add: inair_s3_def inair_s2_def inair_s1_def inair_state_def px4io_new_def)

lemma tick_elapsed:
  assumes "j < n" and "j < 1000"
  shows "(tick_clock n (6 + j) - 10000500) div 1000 = of_nat (10 * (j + 1))"
proof -
  have "tick_clock n (6 + j) - 10000500 = (of_nat (10000 * (j + 1)) :: 64 word)"
    using assms by (simp add: tick_clock_def)
  moreover have "unat (of_nat (10000 * (j + 1)) :: 64 word) = 10000 * (j + 1)"
    by (rule of_nat_inverse [OF refl]) (use assms in simp)
  ultimately have "unat ((tick_clock n (6 + j) - 10000500) div 1000) = 10 * (j + 1)"
    by (simp add: unat_div)
  moreover have "unat (of_nat (10 * (j + 1)) :: 64 word) = 10 * (j + 1)"
    by (rule of_nat_inverse [OF refl]) (use assms in simp)
  ultimately show ?thesis
    by (simp add: word_unat_eq_iff)
qed

lemma tick_deadline:
  assumes "j < n" and "j < 1000"
  shows "(tick_clock n (6 + j) - 10000500) div 1000 > 3000 \<longleftrightarrow> 300 \<le> j"
proof -
  have "unat (of_nat (10 * (j + 1)) :: 64 word) = 10 * (j + 1)"
    by (rule of_nat_inverse [OF refl]) (use assms in simp)
  then show ?thesis
    using assms by (simp add: tick_elapsed word_less_nat_alt) linarith
qed

lemma wait_armed_update_round:
  assumes "armed_updates env polls = None"
  shows "wait_armed_update (Suc n) env t0 polls s =
     (if (clock s (clock_reads s) - t0) div 1000 > 3000
      then Some (Inl 1, mavlink_log ''Failed to recover from in-air restart (1), abort''
                  (snd (hrt_absolute_time (px4_usleep 10000 s))))
      else wait_armed_update n env t0 (Suc polls) (snd (hrt_absolute_time (px4_usleep 10000 s))))"
  using assms by (simp add: hrt_absolute_time_def px4_usleep_def Let_def)

lemma spin_armed_timeout:
  assumes "0 < fuel" and "(clock s (clock_reads s) - t0) div 1000 > 2000"
  shows "spin_armed fuel env ts t0 msg polls s =
     Some (Inl 1, mavlink_log ''Failed to recover from in-air restart (2), abort''
                  (snd (hrt_absolute_time (px4_usleep 50000 s))))"
proof -
  obtain n where "fuel = Suc n"
    using assms(1) by (cases fuel) simp_all
  then show ?thesis
    using assms(2) by (simp add: hrt_absolute_time_def px4_usleep_def Let_def)
qed

lemma wait_armed_update_quiet:
  assumes "\<forall>j<k. armed_updates env (polls + j) = None"
    and "\<forall>j<k. \<not> (clock s (clock_reads s + j) - t0) div 1000 > 3000"
  shows "wait_armed_update (k + n) env t0 polls s =
           wait_armed_update n env t0 (polls + k)
             (s\<lparr>clock_reads := clock_reads s + k,
                events := events s @ replicate k (Usleep 10000)\<rparr>)"
  using assms
proof (induction k arbitrary: polls s)
  case 0
  show ?case by simp
next
  case (Suc k)
  let ?s1 = "snd (hrt_absolute_time (px4_usleep 10000 s))"
  have none: "armed_updates env polls = None"
    using Suc.prems(1) by (metis add.right_neutral zero_less_Suc)
  have ok: "\<not> (clock s (clock_reads s) - t0) div 1000 > 3000"
    using Suc.prems(2) by (metis add.right_neutral zero_less_Suc)
  have step: "wait_armed_update (Suc k + n) env t0 polls s =
      wait_armed_update (k + n) env t0 (Suc polls) ?s1"
    using ok wait_armed_update_round [OF none, of "k + n" t0 s] by simp
  have fields: "clock ?s1 = clock s" "clock_reads ?s1 = Suc (clock_reads s)"
    "events ?s1 = events s @ [Usleep 10000]"
    by (simp_all add: hrt_absolute_time_def px4_usleep_def)
  have p1: "\<forall>j<k. armed_updates env (Suc polls + j) = None"
    using Suc.prems(1) by (metis Suc_less_eq add_Suc_shift)
  have p2: "\<forall>j<k. \<not> (clock ?s1 (clock_reads ?s1 + j) - t0) div 1000 > 3000"
    using Suc.prems(2) unfolding fields by (metis Suc_less_eq add_Suc_shift)
  have "wait_armed_update (k + n) env t0 (Suc polls) ?s1 =
      wait_armed_update n env t0 (Suc polls + k)
        (?s1\<lparr>clock_reads := clock_reads ?s1 + k,
             events := events ?s1 @ replicate k (Usleep 10000)\<rparr>)"
    by (rule Suc.IH [OF p1 p2])
  moreover have "?s1\<lparr>clock_reads := clock_reads ?s1 + k,
             events := events ?s1 @ replicate k (Usleep 10000)\<rparr> =
      s\<lparr>clock_reads := clock_reads s + Suc k,
        events := events s @ replicate (Suc k) (Usleep 10000)\<rparr>"
    by (simp add: hrt_absolute_time_def px4_usleep_def replicate_append_same)
  ultimately show ?case
    using step by simp
qed

lemma inair_quiet_rounds:
  assumes "k \<le> n" and "k \<le> 300"
  shows "\<forall>j<k. \<not> (clock (inair_s3 n) (clock_reads (inair_s3 n) + j) - 10000500) div 1000 > 3000"
  using assms by (simp add: inair_s3_fields tick_deadline)

lemma inair_s4_eq:
  "wait_armed_update 211 late_env 10000500 0 (inair_s3 210) =
     Some (Inr (armed_msg, 211), inair_s4)"
proof -
  have "wait_armed_update (210 + Suc 0) late_env 10000500 0 (inair_s3 210) =
      wait_armed_update (Suc 0) late_env 10000500 (0 + 210)
        ((inair_s3 210)\<lparr>clock_reads := clock_reads (inair_s3 210) + 210,
                        events := events (inair_s3 210) @ replicate 210 (Usleep 10000)\<rparr>)"
    using inair_quiet_rounds [of 210 210]
    by (intro wait_armed_update_quiet) (simp_all add: late_env_def quiet_env_def)
  then show ?thesis
    by (simp add: inair_s4_def inair_s3_fields late_env_def)
qed

lemma inair_s4_fields:
  "clock inair_s4 = tick_clock 210" "clock_reads inair_s4 = 216"
  "params inair_s4 = [''SYS_RESTART_TYPE'' \<mapsto> 0, ''MAV_SYS_ID'' \<mapsto> 1, ''MAV_COMP_ID'' \<mapsto> 1]"
  by (simp_all add: inair_s4_def inair_s3_fields)

lemma tick_clock_210:
  "tick_clock 210 5 = 10000500" "tick_clock 210 216 = 12100600" "tick_clock 210 217 = 12150600"
  by (simp_all add: tick_clock_def)

lemma inair_arm_step:
  "arm_step late_env 211 10000500 armed_msg 211 inair_s4 = Some (Inl 1, inair_s5)"
  by (simp add: arm_step_def spin_armed_timeout inair_s4_fields tick_clock_210 inair_s5_def
      hrt_absolute_time_def px4_usleep_def vcmd_publish_def mavlink_log_def Let_def)

lemma inair_force_failsafe_step:
  "force_failsafe_step example_protocol late_env 211 0x12 10000500 armed_msg 211 inair_s4 =
     Some (Inr (armed_msg, 211), inair_s4)"
  by (simp add: force_failsafe_step_def example_protocol_fields)

lemma inair_final:
  "inair_restart example_protocol late_env 211 0x12 (inair_s2 210) =
     Some (Inl (Return 1), inair_s5)"
  by (simp add: inair_restart_def inair_s3_eq inair_s4_eq inair_force_failsafe_step
      inair_arm_step param_get_def inair_s4_fields del: wait_armed_update.simps)

text \<open>
  C3. The claim gives each wait of the in-air restart recovery a deadline measured from
  the wait's own entry, and the comment that closes the two later loops says as much
  (\<^verbatim>\<open>keep waiting for state change for 2 s\<close>). The code measures all three deadlines from
  \<^verbatim>\<open>try_start_time\<close>, read once before the first wait, and on this input the two part.
  \<^verbatim>\<open>try_start_time\<close> is 10.0005 s, the sixth reading of the clock. The arming feed delivers
  its first message, already armed, at the 211th poll, 2.1 s later, so the first wait ends
  within its 3 s. The arm command is published at 12.1006 s, on entry to the arm-request
  wait. The wait sleeps 50 ms once, and at its first check, 50 ms after its entry and
  2150 ms after \<^verbatim>\<open>try_start_time\<close>, \<^verbatim>\<open>init\<close> logs the arm wait's failure and returns 1: the
  wait lasts 50 ms, not 2 s, and the arm request is not re-issued once.
\<close>

theorem inair_arm_wait_early_timeout:
  "init example_protocol late_env 211 (inair_state 210) = Some (Return 1, inair_s5) \<and>
   events inair_s5 =
     [Usleep 2000, PublishStatus 10000400, MavlinkLog ''RECOVERING FROM FMU IN-AIR RESTART''] @
     replicate 210 (Usleep 10000) @
     [PublishVehicleCommand VEHICLE_CMD_COMPONENT_ARM_DISARM 12100600, Usleep 50000,
      MavlinkLog ''Failed to recover from in-air restart (2), abort''] \<and>
   clock_reads inair_s5 = 218 \<and>
   clock inair_s5 5 = 10000500 \<and> clock inair_s5 216 = 12100600 \<and>
   clock inair_s5 217 = 12150600 \<and>
   (clock inair_s5 217 - clock inair_s5 216) div 1000 = 50 \<and>
   (clock inair_s5 217 - clock inair_s5 5) div 1000 = 2150"
proof -
  have "cdev_init late_env = 0"
    by (simp add: late_env_def quiet_env_def)
  then have "init example_protocol late_env 211 (inair_state 210) =
      init_arming example_protocol late_env 211 (inair_s1 210)"
    by (rule inair_probe) simp
  moreover have "init_arming example_protocol late_env 211 (inair_s1 210) =
      Some (Return 1, inair_s5)"
    using inair_s2_eq [of 210]
    by (simp add: init_arming_def example_protocol_fields inair_final
        del: wait_armed_update.simps)
  moreover have "clock inair_s5 = tick_clock 210"
    by (simp add: inair_s5_def inair_s4_fields)
  ultimately show ?thesis
    by (simp add: inair_s5_def inair_s4_def inair_s3_def tick_clock_210)
qed

text \<open>The out-of-range branch, when it is reached: \<^verbatim>\<open>init\<close> returns -1, and with an adjusted
  transfer limit of at least 2 the two magic values are written, safety-on first.\<close>

lemma init_config_out_of_range:
  assumes "cdev_init env = OK"
    and "probe_protocol fuel P (fst (hrt_absolute_time (restart_type_volatile P s)))
           (snd (hrt_absolute_time (restart_type_volatile P s))) = Some (PX4IO_PROTOCOL_VERSION P, s2)"
    and "PX4IO_PROTOCOL_VERSION P \<noteq> io_reg_get_error"
    and "config_out_of_range (read_config P s2)"
  shows "init P env fuel s = Some (Return (- 1), reboot_into_bootloader P (read_config P s2))"
    and "2 \<le> max_transfer (read_config P s2) \<Longrightarrow>
         trace (reboot_into_bootloader P (read_config P s2)) =
           trace (read_config P s2) @
             [LinkWrite (reg_address (PX4IO_PAGE_SETUP P) (PX4IO_P_SETUP_FORCE_SAFETY_ON P))
                [PX4IO_FORCE_SAFETY_MAGIC P] 1,
              LinkWrite (reg_address (PX4IO_PAGE_SETUP P) (PX4IO_P_SETUP_REBOOT_BL P))
                [PX4IO_REBOOT_BL_MAGIC P] 1]"
  using assms
  by (simp_all add: init_def case_prod_beta Let_def reboot_into_bootloader_trace not_less [symmetric])


section \<open>The transfer limit after start-up\<close>

lemma io_reg_get_max_transfer [simp]:
  "max_transfer (snd (snd (io_reg_get page offset values num_values s))) = max_transfer s"
  by (simp add: io_reg_get_link)

lemma io_reg_set_max_transfer [simp]:
  "max_transfer (snd (io_reg_set page offset values num_values s)) = max_transfer s"
  by (simp add: io_reg_set_def Let_def)

lemma io_reg_set1_max_transfer [simp]:
  "max_transfer (snd (io_reg_set1 page offset v s)) = max_transfer s"
  by (simp add: io_reg_set1_def)

lemma io_reg_get1_max_transfer [simp]:
  "max_transfer (snd (io_reg_get1 page offset s)) = max_transfer s"
  by (simp add: io_reg_get1_link)

lemma io_handle_status_max_transfer [simp]:
  "max_transfer (snd (io_handle_status P st s)) = max_transfer s"
  by (simp add: io_handle_status_def hrt_elapsed_time_def hrt_absolute_time_def Let_def
      case_prod_beta)

lemma read_each_max_transfer [simp]:
  "max_transfer (read_each page offset n s) = max_transfer s"
  unfolding read_each_def by (induction n) simp_all

lemma io_get_status_max_transfer [simp]:
  "max_transfer (snd (io_get_status P s)) = max_transfer s"
  by (simp add: io_get_status_def hrt_elapsed_time_def hrt_absolute_time_def Let_def
      case_prod_beta)

lemma recovery_entry_max_transfer [simp]:
  "max_transfer (snd (recovery_entry P s)) = max_transfer s"
  by (simp add: recovery_entry_def hrt_absolute_time_def mavlink_log_def case_prod_beta)

lemma wait_armed_update_max_transfer:
  "wait_armed_update n env t0 polls s = Some (r, s') \<Longrightarrow> max_transfer s' = max_transfer s"
  by (induction n arbitrary: polls s)
    (auto simp add: hrt_absolute_time_def px4_usleep_def mavlink_log_def Let_def
      split: option.splits if_splits)

lemma spin_force_failsafe_max_transfer:
  "spin_force_failsafe n env ts t0 msg polls s = Some (r, s') \<Longrightarrow> max_transfer s' = max_transfer s"
  by (induction n arbitrary: msg polls s)
    (auto simp add: hrt_absolute_time_def px4_usleep_def mavlink_log_def px4_warn_def
      vcmd_publish_def Let_def split: option.splits if_splits)

lemma spin_armed_max_transfer:
  "spin_armed n env ts t0 msg polls s = Some (r, s') \<Longrightarrow> max_transfer s' = max_transfer s"
  by (induction n arbitrary: msg polls s)
    (auto simp add: hrt_absolute_time_def px4_usleep_def mavlink_log_def px4_warn_def
      vcmd_publish_def Let_def split: option.splits if_splits)

lemma force_failsafe_step_max_transfer:
  "force_failsafe_step P env fuel reg t0 msg polls s = Some (r, s') \<Longrightarrow>
   max_transfer s' = max_transfer s"
  by (auto simp add: force_failsafe_step_def hrt_absolute_time_def mavlink_log_def
      vcmd_publish_def Let_def split: if_splits dest!: spin_force_failsafe_max_transfer)

lemma arm_step_max_transfer:
  "arm_step env fuel t0 msg polls s = Some (r, s') \<Longrightarrow> max_transfer s' = max_transfer s"
  by (auto simp add: arm_step_def hrt_absolute_time_def vcmd_publish_def Let_def
      dest!: spin_armed_max_transfer)

lemma param_set_max_transfer [simp]:
  "max_transfer (param_set name v s) = max_transfer s"
  by (simp add: param_set_def split: option.splits)

lemma inair_restart_max_transfer:
  assumes "inair_restart P env fuel reg s = Some (r, s')"
  shows "max_transfer s' = max_transfer s"
proof -
  obtain t0 s3 where e: "recovery_entry P s = (t0, s3)"
    by (cases "recovery_entry P s")
  then have s3: "max_transfer s3 = max_transfer s"
    using recovery_entry_max_transfer [of P s] by simp
  show ?thesis
    using assms s3 unfolding inair_restart_def e
    by (auto split: option.splits sum.splits prod.splits if_splits
        dest!: wait_armed_update_max_transfer force_failsafe_step_max_transfer
          arm_step_max_transfer)
qed

lemma rc_config_channels_max_transfer:
  "max_transfer (snd (rc_config_channels P env is offset ret s)) = max_transfer s"
  by (induction "is" arbitrary: offset ret s)
    (simp_all add: Let_def case_prod_beta px4_warn_def mavlink_log_def)

lemma restart_type_power_on_max_transfer [simp]:
  "max_transfer (restart_type_power_on P s) = max_transfer s"
  by (simp add: restart_type_power_on_def)

lemma cold_boot_max_transfer [simp]:
  "max_transfer (snd (cold_boot P env s)) = max_transfer s"
  by (simp add: cold_boot_def io_disable_rc_handling_def io_set_rc_config_def
      rc_config_channels_max_transfer px4_warn_def mavlink_log_def Let_def case_prod_beta)

lemma init_finish_max_transfer [simp]:
  "max_transfer (snd (init_finish P env s)) = max_transfer s"
  by (simp add: init_finish_def updateDisarmed_def updateFailsafe_def Let_def)


lemma init_arming_max_transfer:
  assumes "init_arming P env fuel s = Some (r, s')"
  shows "max_transfer s' = max_transfer s"
proof -
  obtain ret regs s1 where g: "io_reg_get (PX4IO_PAGE_SETUP P) (PX4IO_P_SETUP_ARMING P) [0] 2 s = (ret, regs, s1)"
    by (cases "io_reg_get (PX4IO_PAGE_SETUP P) (PX4IO_P_SETUP_ARMING P) [0] 2 s")
  then have s1: "max_transfer s1 = max_transfer s"
    using io_reg_get_max_transfer [of "PX4IO_PAGE_SETUP P" "PX4IO_P_SETUP_ARMING P" "[0]" 2 s]
    by simp
  show ?thesis
  proof (cases "ret \<noteq> OK")
    case True
    then have "s' = s1"
      using assms by (simp add: init_arming_def g)
    then show ?thesis
      using s1 by simp
  next
    case ok: False
    show ?thesis
    proof (cases "hd regs AND PX4IO_P_SETUP_ARMING_INAIR_RESTART_OK P \<noteq> 0
                 \<and> hd regs AND PX4IO_P_SETUP_ARMING_FMU_ARMED P \<noteq> 0")
      case inair: True
      show ?thesis
      proof (cases "inair_restart P env fuel (hd regs) s1")
        case None
        then show ?thesis
          using assms ok inair by (simp add: init_arming_def g Let_def)
      next
        case (Some a)
        obtain x s2 where a: "a = (x, s2)"
          by (cases a)
        have s2: "max_transfer s2 = max_transfer s1"
          using Some a inair_restart_max_transfer [of P env fuel "hd regs" s1 x s2] by simp
        show ?thesis
        proof (cases x)
          case (Inl res)
          then have "s' = s2"
            using assms ok inair Some a by (simp add: init_arming_def g Let_def)
          then show ?thesis
            using s1 s2 by simp
        next
          case (Inr u)
          then have "init_finish P env s2 = (r, s')"
            using assms ok inair Some a by (simp add: init_arming_def g Let_def)
          then have "s' = snd (init_finish P env s2)"
            by simp
          then show ?thesis
            using s1 s2 by simp
        qed
      qed
    next
      case cold: False
      obtain x s2 where cb: "cold_boot P env s1 = (x, s2)"
        by (cases "cold_boot P env s1")
      then have s2: "max_transfer s2 = max_transfer s1"
        using cold_boot_max_transfer [of P env s1] by simp
      show ?thesis
      proof (cases x)
        case (Inl res)
        then have "s' = s2"
          using assms ok cold cb by (simp add: init_arming_def g Let_def)
        then show ?thesis
          using s1 s2 by simp
      next
        case (Inr u)
        then have "init_finish P env s2 = (r, s')"
          using assms ok cold cb by (simp add: init_arming_def g Let_def)
        then have "s' = snd (init_finish P env s2)"
          by simp
        then show ?thesis
          using s1 s2 by simp
      qed
    qed
  qed
qed


text \<open>A driver that \<^verbatim>\<open>init\<close> returned \<^verbatim>\<open>OK\<close> for has a transfer limit between 16 and 255:
  at least one register fits.\<close>

lemma init_ok_max_transfer:
  assumes "init P env fuel s = Some (Return OK, s')"
  shows "16 \<le> max_transfer s' \<and> max_transfer s' \<le> 255"
proof -
  let ?s0 = "restart_type_volatile P s"
  let ?probe = "probe_protocol fuel P (fst (hrt_absolute_time ?s0)) (snd (hrt_absolute_time ?s0))"
  have c: "cdev_init env = OK"
  proof (rule ccontr)
    assume "cdev_init env \<noteq> OK"
    then show False
      using assms by (simp add: init_def Let_def)
  qed
  obtain protocol s2 where p: "?probe = Some (protocol, s2)"
  proof (cases ?probe)
    case None
    then show ?thesis
      using assms c by (simp add: init_def Let_def case_prod_beta)
  next
    case (Some a)
    then show ?thesis
      using that by (cases a) simp
  qed
  let ?s3 = "read_config P s2"
  let ?s4 = "if max_rc_input ?s3 > RC_INPUT_MAX_CHANNELS P
             then ?s3\<lparr>max_rc_input := RC_INPUT_MAX_CHANNELS P\<rparr> else ?s3"
  let ?s5 = "?s4\<lparr>rssi_pwm_chan := snd (param_get ''RC_RSSI_PWM_CHAN'' (rssi_pwm_chan ?s4) ?s4),
                 rssi_pwm_max := snd (param_get ''RC_RSSI_PWM_MAX'' (rssi_pwm_max ?s4) ?s4),
                 rssi_pwm_min := snd (param_get ''RC_RSSI_PWM_MIN'' (rssi_pwm_min ?s4) ?s4)\<rparr>"
  have eq: "init P env fuel s =
      (if protocol = io_reg_get_error
       then Some (Return (- 1), mavlink_log ''Failed to communicate with IO, abort.'' s2)
       else if protocol \<noteq> PX4IO_PROTOCOL_VERSION P
       then Some (Return (- 1), mavlink_log ''IO protocol/firmware mismatch, abort.'' s2)
       else if config_out_of_range ?s3 then Some (Return (- 1), reboot_into_bootloader P ?s3)
       else init_arming P env fuel ?s5)"
    using c p by (simp add: init_def Let_def case_prod_beta)
  have neq: "Return (- 1) \<noteq> Return OK"
    by (simp add: OK_def)
  have in_range: "\<not> config_out_of_range ?s3"
    and arming: "init_arming P env fuel ?s5 = Some (Return OK, s')"
    using assms neq unfolding eq by (simp_all split: if_splits)
  have "max_transfer s' = max_transfer ?s5"
    using arming by (rule init_arming_max_transfer)
  also have "\<dots> = max_transfer ?s3"
    by simp
  finally show ?thesis
    using in_range by (auto simp add: config_out_of_range_def)
qed

end
